theory Spec2Isabelle
  imports Main "HOL-Library.Word"
begin

section \<open>HTTP vocabulary used by the gateway plugins\<close>

text \<open>
  The two plugins (package \<open>v1\<close>, the versioned REST gateway, and package \<open>debug\<close>)
  register closures on an Echo router.  The pieces of \<open>net/http\<close> and \<open>echo\<close> that the
  closures mention are written out here: methods, status codes, the two header and
  content-type constants, the request context and the response that a closure leaves
  behind.
\<close>

datatype http_method = GET | POST | PUT | DELETE

definition StatusOK :: nat where
  "StatusOK = 200"

definition StatusCreated :: nat where
  "StatusCreated = 201"

definition StatusNoContent :: nat where
  "StatusNoContent = 204"

definition HeaderLocation :: string where
  "HeaderLocation = ''Location''"

definition MIMEOctetStream :: string where
  "MIMEOctetStream = ''application/octet-stream''"

type_synonym bytes = "8 word list"

text \<open>
  A request context: the path parameters bound by the router, the request body, and
  the response headers set so far (\<open>c.Response().Header()\<close>).
\<close>

record ctx =
  params :: "(string \<times> string) list"
  request_body :: bytes
  response_header :: "(string \<times> string) list"

text \<open>\<open>Header().Set(k, v)\<close> replaces whatever was stored under \<open>k\<close>.\<close>

definition Header_Set :: "string \<Rightarrow> string \<Rightarrow> ctx \<Rightarrow> ctx" where
  "Header_Set k v c =
     c\<lparr>response_header := (k, v) # filter (\<lambda>kv. fst kv \<noteq> k) (response_header c)\<rparr>"

text \<open>
  The three ways a closure answers: \<open>JSONResponse\<close> (a structured payload in the
  uniform envelope), \<open>c.Blob\<close> (raw bytes with a content type) and \<open>c.NoContent\<close>.
\<close>

datatype 'p body = JSONBody 'p | BlobBody string bytes | NoBody

record 'p response =
  status :: nat
  header :: "(string \<times> string) list"
  body :: "'p body"

datatype encoding = Structured | RawBytes | EmptyBody

fun encoding_of :: "'p body \<Rightarrow> encoding" where
  "encoding_of (JSONBody p) = Structured"
| "encoding_of (BlobBody ct bs) = RawBytes"
| "encoding_of NoBody = EmptyBody"

text \<open>
  Failures.  \<open>ErrNodeNotSync\<close> is the error value the plugins declare; the others are
  the failure kinds of the error taxonomy, and the two answers of the router itself for
  a request it cannot route.
\<close>

datatype api_error =
    ErrNodeNotSync
  | ErrInvalidParameter
  | ErrNotFound
  | ErrProofOfWorkRejected
  | ErrInternal
  | ErrMethodNotAllowed

text \<open>
  Modelled from the spec: the error-to-status translation lives in the RestAPI plugin's
  error handler, which is not among the given sources.  Section 7 of the specification:
  NotSynced gives 503, InvalidParameter 400, NotFound 404, ProofOfWorkRejected 400,
  Internal 500; 405 is the router's own answer for a known path under another verb.
\<close>

fun error_status :: "api_error \<Rightarrow> nat" where
  "error_status ErrNodeNotSync = 503"
| "error_status ErrInvalidParameter = 400"
| "error_status ErrNotFound = 404"
| "error_status ErrProofOfWorkRejected = 400"
| "error_status ErrInternal = 500"
| "error_status ErrMethodNotAllowed = 405"

fun http_status :: "api_error + 'p response \<Rightarrow> nat" where
  "http_status (Inl err) = error_status err"
| "http_status (Inr resp) = status resp"

text \<open>
  Modelled from the spec: \<open>restapipkg.JSONResponse\<close> is not among the given sources.
  Section 4.5: a structured success payload wrapped uniformly with a status code.
\<close>

definition JSONResponse :: "ctx \<Rightarrow> nat \<Rightarrow> 'p \<Rightarrow> api_error + 'p response" where
  "JSONResponse c code result =
     Inr \<lparr>status = code, header = response_header c, body = JSONBody result\<rparr>"

definition Blob :: "ctx \<Rightarrow> nat \<Rightarrow> string \<Rightarrow> bytes \<Rightarrow> api_error + 'p response" where
  "Blob c code contentType b =
     Inr \<lparr>status = code, header = response_header c, body = BlobBody contentType b\<rparr>"

definition NoContent :: "ctx \<Rightarrow> nat \<Rightarrow> api_error + 'p response" where
  "NoContent c code = Inr \<lparr>status = code, header = response_header c, body = NoBody\<rparr>"

section \<open>Package state, payloads and the operations behind the routes\<close>

record infoResponse =
  Features :: "string list"

record messageCreatedResponse =
  MessageID :: string

text \<open>
  What \<open>JSONResponse\<close> is handed: the info response, the response of a message
  submission, a plain string (the debug plugin), or the result of one of the other
  operations, whose shape the routes do not look at.
\<close>

datatype 'a payload =
    Info infoResponse
  | MessageCreated messageCreatedResponse
  | Text string
  | Data 'a

text \<open>
  The package variables of \<open>v1\<close> (\<open>powEnabled\<close>, \<open>powWorkerCount\<close>, \<open>features\<close>) together
  with the state of the subsystems behind the dependency handles (\<open>node\<close>).
\<close>

record 's state =
  powEnabled :: bool
  powWorkerCount :: int
  features :: "string list"
  node :: 's

type_synonym ('s, 'a) handler =
  "ctx \<Rightarrow> 's state \<Rightarrow> (api_error + 'a payload response) \<times> 's state"

text \<open>
  The functions the closures call (\<open>tips\<close>, \<open>messageByID\<close>, \<open>sendMessage\<close>,
  \<open>removePeer\<close>, \<open>debugOutputsIDs\<close>, ...) are defined in other files of the two packages.
  They are parameters of the model: \<open>call\<close> stands for every function of type
  \<open>func(echo.Context) (resp, error)\<close>, looked up by its name; the three functions
  whose result the closure inspects or whose type differs have a field of their own.
\<close>

record ('s, 'a) backend =
  call :: "string \<Rightarrow> ctx \<Rightarrow> 's state \<Rightarrow> (api_error + 'a) \<times> 's state"
  messageBytesByID :: "ctx \<Rightarrow> 's state \<Rightarrow> (api_error + bytes) \<times> 's state"
  sendMessage :: "ctx \<Rightarrow> 's state \<Rightarrow> (api_error + messageCreatedResponse) \<times> 's state"
  removePeer :: "ctx \<Rightarrow> 's state \<Rightarrow> api_error option \<times> 's state"
  TriggerSolidifier :: "'s \<Rightarrow> 's"

text \<open>
  Modelled from the spec: \<open>info()\<close> is not among the given sources.  Section 4.4: when
  the info route computes a response it returns the feature list accumulated so far;
  section 8: on a freshly started node the info route answers 200.
\<close>

definition info :: "'s state \<Rightarrow> (api_error + infoResponse) \<times> 's state" where
  "info st = (Inr \<lparr>Features = features st\<rparr>, st)"

section \<open>The router host\<close>

text \<open>
  A registered route: the HTTP method (\<open>verb\<close>), the full path template (group prefix
  and route path) and the closure.  The router is the list of its routes in the order of
  registration.
\<close>

record ('s, 'a) route =
  verb :: http_method
  path :: string
  handler :: "('s, 'a) handler"

type_synonym ('s, 'a) echo = "('s, 'a) route list"

record ('s, 'a) group =
  prefix :: string
  echo :: "('s, 'a) echo"

definition Group :: "('s, 'a) echo \<Rightarrow> string \<Rightarrow> ('s, 'a) group" where
  "Group e p = \<lparr>prefix = p, echo = e\<rparr>"

definition Add :: "http_method \<Rightarrow> string \<Rightarrow> ('s, 'a) handler \<Rightarrow> ('s, 'a) group \<Rightarrow> ('s, 'a) group" where
  "Add m p h g = g\<lparr>echo := echo g @ [\<lparr>verb = m, path = prefix g @ p, handler = h\<rparr>]\<rparr>"

text \<open>A sequence of registrations on a route group, run in the order written.\<close>

definition register :: "('g \<Rightarrow> 'g) list \<Rightarrow> 'g \<Rightarrow> 'g" where
  "register steps g = foldl (\<lambda>acc step. step acc) g steps"

text \<open>
  Routing.  A path is cut at its slashes; a template segment that starts with a colon
  binds any non-empty segment, every other segment must be equal.
\<close>

fun split_path :: "string \<Rightarrow> string list" where
  "split_path [] = [[]]"
| "split_path (c # cs) =
     (if c = CHR ''/'' then [] # split_path cs
      else (case split_path cs of [] \<Rightarrow> [[c]] | s # ss \<Rightarrow> (c # s) # ss))"

fun match_segments :: "string list \<Rightarrow> string list \<Rightarrow> (string \<times> string) list option" where
  "match_segments [] [] = Some []"
| "match_segments (t # ts) (s # ss) =
     (case t of
        [] \<Rightarrow> (if s = [] then match_segments ts ss else None)
      | x # name \<Rightarrow>
          (if x = CHR '':'' then
             (if s = [] then None
              else (case match_segments ts ss of None \<Rightarrow> None | Some ps \<Rightarrow> Some ((name, s) # ps)))
           else if t = s then match_segments ts ss else None))"
| "match_segments [] (s # ss) = None"
| "match_segments (t # ts) [] = None"

definition match_path :: "string \<Rightarrow> string \<Rightarrow> (string \<times> string) list option" where
  "match_path template p = match_segments (split_path template) (split_path p)"

fun find_route ::
  "('s, 'a) echo \<Rightarrow> http_method \<Rightarrow> string \<Rightarrow> (('s, 'a) route \<times> (string \<times> string) list) option" where
  "find_route [] m p = None"
| "find_route (r # rs) m p =
     (if verb r = m then
        (case match_path (path r) p of
           Some ps \<Rightarrow> Some (r, ps)
         | None \<Rightarrow> find_route rs m p)
      else find_route rs m p)"

fun path_known :: "('s, 'a) echo \<Rightarrow> string \<Rightarrow> bool" where
  "path_known [] p = False"
| "path_known (r # rs) p = (if match_path (path r) p = None then path_known rs p else True)"

record request =
  req_method :: http_method
  req_path :: string
  req_body :: bytes

definition serve ::
  "('s, 'a) echo \<Rightarrow> request \<Rightarrow> 's state \<Rightarrow> (api_error + 'a payload response) \<times> 's state" where
  "serve e rq st =
     (case find_route e (req_method rq) (req_path rq) of
        Some (r, ps) \<Rightarrow>
          handler r \<lparr>params = ps, request_body = req_body rq, response_header = []\<rparr> st
      | None \<Rightarrow>
          (if path_known e (req_path rq) then (Inl ErrMethodNotAllowed, st)
           else (Inl ErrNotFound, st)))"

section \<open>Package v1: the versioned gateway\<close>

text \<open>\<open>time.Duration\<close> counts nanoseconds.\<close>

type_synonym duration = int

definition Millisecond :: duration where
  "Millisecond = 1000000"

definition waitForNodeSyncedTimeout :: duration where
  "waitForNodeSyncedTimeout = 2000 * Millisecond"

text \<open>
  Modelled from the spec: the parameter names of \<open>restapipkg\<close> are not among the given
  sources.  They are taken from the path templates in the table of section 6
  (\<open>/messages/:id\<close>, \<open>/transactions/:txid/included-message\<close>, \<open>/milestones/:index\<close>,
  \<open>/outputs/:id\<close>, \<open>/addresses/:addr/outputs\<close>, \<open>/aliases/:id\<close>, \<open>/nft/:id\<close>,
  \<open>/foundries/:id\<close>, \<open>/peers/:id\<close>).
\<close>

definition restapipkg_ParameterMessageID :: string where
  "restapipkg_ParameterMessageID = ''id''"

definition restapipkg_ParameterTransactionID :: string where
  "restapipkg_ParameterTransactionID = ''txid''"

definition restapipkg_ParameterMilestoneIndex :: string where
  "restapipkg_ParameterMilestoneIndex = ''index''"

definition restapipkg_ParameterOutputID :: string where
  "restapipkg_ParameterOutputID = ''id''"

definition restapipkg_ParameterAddress :: string where
  "restapipkg_ParameterAddress = ''addr''"

definition restapipkg_ParameterAliasID :: string where
  "restapipkg_ParameterAliasID = ''id''"

definition restapipkg_ParameterNFTID :: string where
  "restapipkg_ParameterNFTID = ''id''"

definition restapipkg_ParameterFoundryID :: string where
  "restapipkg_ParameterFoundryID = ''id''"

definition restapipkg_ParameterPeerID :: string where
  "restapipkg_ParameterPeerID = ''id''"

definition RouteInfo :: string where
  "RouteInfo = ''/info''"

definition RouteTips :: string where
  "RouteTips = ''/tips''"

definition RouteMessageData :: string where
  "RouteMessageData = ''/messages/:'' @ restapipkg_ParameterMessageID"

definition RouteMessageMetadata :: string where
  "RouteMessageMetadata = ''/messages/:'' @ restapipkg_ParameterMessageID @ ''/metadata''"

definition RouteMessageBytes :: string where
  "RouteMessageBytes = ''/messages/:'' @ restapipkg_ParameterMessageID @ ''/raw''"

definition RouteMessageChildren :: string where
  "RouteMessageChildren = ''/messages/:'' @ restapipkg_ParameterMessageID @ ''/children''"

definition RouteMessages :: string where
  "RouteMessages = ''/messages''"

definition RouteTransactionsIncludedMessage :: string where
  "RouteTransactionsIncludedMessage =
     ''/transactions/:'' @ restapipkg_ParameterTransactionID @ ''/included-message''"

definition RouteMilestone :: string where
  "RouteMilestone = ''/milestones/:'' @ restapipkg_ParameterMilestoneIndex"

definition RouteMilestoneUTXOChanges :: string where
  "RouteMilestoneUTXOChanges =
     ''/milestones/:'' @ restapipkg_ParameterMilestoneIndex @ ''/utxo-changes''"

definition RouteOutputs :: string where
  "RouteOutputs = ''/outputs''"

definition RouteOutput :: string where
  "RouteOutput = ''/outputs/:'' @ restapipkg_ParameterOutputID"

definition RouteAddressBech32Outputs :: string where
  "RouteAddressBech32Outputs = ''/addresses/:'' @ restapipkg_ParameterAddress @ ''/outputs''"

definition RouteAddressEd25519Outputs :: string where
  "RouteAddressEd25519Outputs =
     ''/addresses/ed25519/:'' @ restapipkg_ParameterAddress @ ''/outputs''"

definition RouteAddressAliasOutputs :: string where
  "RouteAddressAliasOutputs =
     ''/addresses/alias/:'' @ restapipkg_ParameterAddress @ ''/outputs''"

definition RouteAddressNFTOutputs :: string where
  "RouteAddressNFTOutputs = ''/addresses/nft/:'' @ restapipkg_ParameterAddress @ ''/outputs''"

definition RouteAlias :: string where
  "RouteAlias = ''/aliases/:'' @ restapipkg_ParameterAliasID"

definition RouteNFT :: string where
  "RouteNFT = ''/nft/:'' @ restapipkg_ParameterNFTID"

definition RouteFoundry :: string where
  "RouteFoundry = ''/foundries/:'' @ restapipkg_ParameterFoundryID"

definition RouteTreasury :: string where
  "RouteTreasury = ''/treasury''"

definition RouteReceipts :: string where
  "RouteReceipts = ''/receipts''"

definition RouteReceiptsMigratedAtIndex :: string where
  "RouteReceiptsMigratedAtIndex = ''/receipts/:'' @ restapipkg_ParameterMilestoneIndex"

definition RoutePeer :: string where
  "RoutePeer = ''/peers/:'' @ restapipkg_ParameterPeerID"

definition RoutePeers :: string where
  "RoutePeers = ''/peers''"

definition RouteControlDatabasePrune :: string where
  "RouteControlDatabasePrune = ''/control/database/prune''"

definition RouteControlSnapshotsCreate :: string where
  "RouteControlSnapshotsCreate = ''/control/snapshots/create''"

text \<open>The plugin descriptors built by the two \<open>init\<close> functions.\<close>

datatype plugin_status = StatusEnabled | Disabled

record plugin =
  Status :: plugin_status
  Name :: string

definition v1_Plugin :: plugin where
  "v1_Plugin = \<lparr>Status = StatusEnabled, Name = ''RestAPIV1''\<rparr>"

text \<open>
  The node configuration handle, read through \<open>Bool\<close> and \<open>Int\<close> at the two keys the
  gateway uses.
\<close>

datatype config_key = CfgRestAPIPoWEnabled | CfgRestAPIPoWWorkerCount

record configuration =
  config_Bool :: "config_key \<Rightarrow> bool"
  config_Int :: "config_key \<Rightarrow> int"

text \<open>
  The dependency bundle of \<open>v1\<close>.  \<open>v1_dependencies_fields\<close> lists every field of the
  struct with its \<open>optional\<close> tag.  The record \<open>v1_dependencies\<close> holds the three handles
  that \<open>configure\<close> itself touches; \<open>TipSelector\<close> and \<open>Echo\<close> are the two that may be nil.
  The other handles are used only by the operations of \<open>backend\<close>.
\<close>

definition v1_dependencies_fields :: "(string \<times> bool) list" where
  "v1_dependencies_fields =
    [(''Storage'', False),
     (''SyncManager'', False),
     (''Tangle'', False),
     (''PeeringManager'', False),
     (''GossipService'', False),
     (''UTXOManager'', False),
     (''PoWHandler'', False),
     (''MessageProcessor'', False),
     (''SnapshotManager'', False),
     (''AppInfo'', False),
     (''NodeConfig'', False),
     (''PeeringConfigManager'', False),
     (''NetworkID'', False),
     (''NetworkIDName'', False),
     (''DeserializationParameters'', False),
     (''MaxDeltaMsgYoungestConeRootIndexToCMI'', False),
     (''MaxDeltaMsgOldestConeRootIndexToCMI'', False),
     (''BelowMaxDepth'', False),
     (''MinPoWScore'', False),
     (''Bech32HRP'', False),
     (''RestAPILimitsMaxResults'', False),
     (''SnapshotsFullPath'', False),
     (''SnapshotsDeltaPath'', False),
     (''TipSelector'', True),
     (''Echo'', True)]"

record ('s, 'a) v1_dependencies =
  NodeConfig :: configuration
  TipSelector :: "unit option"
  Echo :: "('s, 'a) echo option"

text \<open>
  How startup can end without a gateway: the composer misses a handle, \<open>configure\<close>
  calls \<open>LogPanic\<close>, or a nil handle is dereferenced.
\<close>

datatype startup_error =
    MissingDependency string
  | LogPanic string
  | NilPointerDereference

text \<open>
  The closure shape shared by most routes:
  \<^verbatim>\<open>resp, err := f(c); if err != nil { return err }; return JSONResponse(c, http.StatusOK, resp)\<close>
\<close>

definition respond_ok ::
  "(ctx \<Rightarrow> 's state \<Rightarrow> (api_error + 'a) \<times> 's state) \<Rightarrow> ('s, 'a) handler" where
  "respond_ok f c st =
     (case f c st of
        (Inl err, st') \<Rightarrow> (Inl err, st')
      | (Inr resp, st') \<Rightarrow> (JSONResponse c StatusOK (Data resp), st'))"

definition handle_info :: "('s, 'a) handler" where
  "handle_info c st =
     (case info st of
        (Inl err, st') \<Rightarrow> (Inl err, st')
      | (Inr resp, st') \<Rightarrow> (JSONResponse c StatusOK (Info resp), st'))"

definition handle_message_bytes :: "('s, 'a) backend \<Rightarrow> ('s, 'a) handler" where
  "handle_message_bytes B c st =
     (case messageBytesByID B c st of
        (Inl err, st') \<Rightarrow> (Inl err, st')
      | (Inr resp, st') \<Rightarrow> (Blob c StatusOK MIMEOctetStream resp, st'))"

definition handle_send_message :: "('s, 'a) backend \<Rightarrow> ('s, 'a) handler" where
  "handle_send_message B c st =
     (case sendMessage B c st of
        (Inl err, st') \<Rightarrow> (Inl err, st')
      | (Inr resp, st') \<Rightarrow>
          (JSONResponse (Header_Set HeaderLocation (MessageID resp) c) StatusCreated
             (MessageCreated resp), st'))"

definition handle_remove_peer :: "('s, 'a) backend \<Rightarrow> ('s, 'a) handler" where
  "handle_remove_peer B c st =
     (case removePeer B c st of
        (Some err, st') \<Rightarrow> (Inl err, st')
      | (None, st') \<Rightarrow> (NoContent c StatusNoContent, st'))"

text \<open>
  \<open>configure\<close>.  \<open>restapi_skipped\<close> is \<open>Plugin.Node.IsSkipped(restapi.Plugin)\<close>.  With a
  nil \<open>deps.Echo\<close> and the RestAPI plugin not skipped, nothing stops the function before
  it uses the handle; the route group then has no router behind it and the first
  registration dereferences nil.
\<close>

definition v1_configure ::
  "('s, 'a) backend \<Rightarrow> bool \<Rightarrow> ('s, 'a) v1_dependencies \<Rightarrow> 's state
     \<Rightarrow> startup_error + ('s state \<times> ('s, 'a) echo)" where
  "v1_configure B restapi_skipped deps st =
    (if restapi_skipped then
       Inl (LogPanic ''RestAPI plugin needs to be enabled to use the RestAPIV1 plugin'')
     else
       (case Echo deps of
          None \<Rightarrow> Inl NilPointerDereference
        | Some e \<Rightarrow>
            let routeGroup = Group e ''/api/v1'';
                st1 = st\<lparr>powEnabled := config_Bool (NodeConfig deps) CfgRestAPIPoWEnabled\<rparr>;
                st2 = st1\<lparr>powWorkerCount := config_Int (NodeConfig deps) CfgRestAPIPoWWorkerCount\<rparr>;
                st3 = st2\<lparr>features := []\<rparr>;
                st4 = (if powEnabled st3 then st3\<lparr>features := features st3 @ [''PoW'']\<rparr> else st3)
            in Inr (st4, echo (register
              [Add GET RouteInfo handle_info,
               (\<lambda>g. if TipSelector deps \<noteq> None
                     then Add GET RouteTips (respond_ok (call B ''tips'')) g else g),
               Add GET RouteMessageMetadata (respond_ok (call B ''messageMetadataByID'')),
               Add GET RouteMessageData (respond_ok (call B ''messageByID'')),
               Add GET RouteMessageBytes (handle_message_bytes B),
               Add GET RouteMessageChildren (respond_ok (call B ''childrenIDsByID'')),
               Add GET RouteMessages (respond_ok (call B ''messageIDsByIndex'')),
               Add POST RouteMessages (handle_send_message B),
               Add GET RouteTransactionsIncludedMessage
                 (respond_ok (call B ''messageByTransactionID'')),
               Add GET RouteMilestone (respond_ok (call B ''milestoneByIndex'')),
               Add GET RouteMilestoneUTXOChanges
                 (respond_ok (call B ''milestoneUTXOChangesByIndex'')),
               Add GET RouteOutputs (respond_ok (call B ''outputs'')),
               Add GET RouteOutput (respond_ok (call B ''outputByID'')),
               Add GET RouteAddressBech32Outputs
                 (respond_ok (call B ''outputsIDsByBech32Address'')),
               Add GET RouteAddressEd25519Outputs
                 (respond_ok (call B ''outputsIDsByEd25519Address'')),
               Add GET RouteAddressAliasOutputs
                 (respond_ok (call B ''outputsIDsByAliasAddress'')),
               Add GET RouteAddressNFTOutputs
                 (respond_ok (call B ''outputsIDsByNFTAddress'')),
               Add GET RouteAlias (respond_ok (call B ''aliasByID'')),
               Add GET RouteNFT (respond_ok (call B ''nftByID'')),
               Add GET RouteFoundry (respond_ok (call B ''foundryByID'')),
               Add GET RouteTreasury (respond_ok (call B ''treasury'')),
               Add GET RouteReceipts (respond_ok (call B ''receipts'')),
               Add GET RouteReceiptsMigratedAtIndex
                 (respond_ok (call B ''receiptsByMigratedAtIndex'')),
               Add GET RoutePeer (respond_ok (call B ''getPeer'')),
               Add DELETE RoutePeer (handle_remove_peer B),
               Add GET RoutePeers (respond_ok (call B ''listPeers'')),
               Add POST RoutePeers (respond_ok (call B ''addPeer'')),
               Add POST RouteControlDatabasePrune (respond_ok (call B ''pruneDatabase'')),
               Add POST RouteControlSnapshotsCreate (respond_ok (call B ''createSnapshots''))]
              routeGroup))))"

definition AddFeature :: "string \<Rightarrow> 's state \<Rightarrow> 's state" where
  "AddFeature feature st = st\<lparr>features := features st @ [feature]\<rparr>"

section \<open>Package debug\<close>

definition debug_ParameterMessageID :: string where
  "debug_ParameterMessageID = ''messageID''"

definition debug_ParameterMilestoneIndex :: string where
  "debug_ParameterMilestoneIndex = ''milestoneIndex''"

definition RouteDebugSolidifier :: string where
  "RouteDebugSolidifier = ''/solidifier''"

definition RouteDebugOutputs :: string where
  "RouteDebugOutputs = ''/outputs''"

definition RouteDebugOutputsUnspent :: string where
  "RouteDebugOutputsUnspent = ''/outputs/unspent''"

definition RouteDebugOutputsSpent :: string where
  "RouteDebugOutputsSpent = ''/outputs/spent''"

definition RouteDebugAddresses :: string where
  "RouteDebugAddresses = ''/addresses''"

definition RouteDebugAddressesEd25519 :: string where
  "RouteDebugAddressesEd25519 = ''/addresses/ed25519''"

definition RouteDebugMilestoneDiffs :: string where
  "RouteDebugMilestoneDiffs = ''/ms-diff/:'' @ debug_ParameterMilestoneIndex"

definition RouteDebugRequests :: string where
  "RouteDebugRequests = ''/requests''"

definition RouteDebugMessageCone :: string where
  "RouteDebugMessageCone = ''/message-cones/:'' @ debug_ParameterMessageID"

definition debug_Plugin :: plugin where
  "debug_Plugin = \<lparr>Status = Disabled, Name = ''Debug''\<rparr>"

text \<open>
  The debug bundle has no optional field; \<open>Echo\<close> is the only handle that \<open>configure\<close>
  touches, \<open>Tangle\<close> is reached through \<open>TriggerSolidifier\<close>.
\<close>

record ('s, 'a) debug_dependencies =
  debug_Echo :: "('s, 'a) echo"

definition handle_solidifier :: "('s, 'a) backend \<Rightarrow> ('s, 'a) handler" where
  "handle_solidifier B c st =
     (let st' = st\<lparr>node := TriggerSolidifier B (node st)\<rparr>
      in (JSONResponse c StatusOK (Text ''solidifier triggered''), st'))"

definition debug_configure ::
  "('s, 'a) backend \<Rightarrow> ('s, 'a) debug_dependencies \<Rightarrow> ('s, 'a) echo" where
  "debug_configure B deps =
     (let routeGroup = Group (debug_Echo deps) ''/api/plugins/debug''
      in echo (register
        [Add GET RouteDebugSolidifier (handle_solidifier B),
         Add GET RouteDebugOutputs (respond_ok (call B ''debugOutputsIDs'')),
         Add GET RouteDebugOutputsUnspent (respond_ok (call B ''debugUnspentOutputsIDs'')),
         Add GET RouteDebugOutputsSpent (respond_ok (call B ''debugSpentOutputsIDs'')),
         Add GET RouteDebugAddresses (respond_ok (call B ''debugAddresses'')),
         Add GET RouteDebugAddressesEd25519 (respond_ok (call B ''debugAddressesEd25519'')),
         Add GET RouteDebugMilestoneDiffs (respond_ok (call B ''debugMilestoneDiff'')),
         Add GET RouteDebugRequests (respond_ok (call B ''debugRequests'')),
         Add GET RouteDebugMessageCone (respond_ok (call B ''debugMessageCone''))]
        routeGroup))"

section \<open>Startup: the composer in front of configure\<close>

text \<open>
  What the container can hand to the bundle: the node configuration, the router host,
  or a subsystem handle that \<open>configure\<close> never looks into.
\<close>

datatype ('s, 'a) handle =
    Subsystem
  | ConfigHandle configuration
  | EchoHandle "('s, 'a) echo"

type_synonym ('s, 'a) container = "(string \<times> ('s, 'a) handle) list"

text \<open>
  Modelled from the spec: the injection of the bundle (\<open>dig\<close>, called from \<open>pkg/node\<close>) is
  not among the given sources.  Section 4.1: for every mandatory entry missing, startup
  fails fatally; an optional entry that is missing is left absent.  Which entries are
  optional is read from the struct tags (\<open>v1_dependencies_fields\<close>).
\<close>

definition inject :: "('s, 'a) container \<Rightarrow> startup_error + ('s, 'a) v1_dependencies" where
  "inject ct =
     (case find (\<lambda>f. \<not> snd f \<and> map_of ct (fst f) = None) v1_dependencies_fields of
        Some f \<Rightarrow> Inl (MissingDependency (fst f))
      | None \<Rightarrow>
          (case map_of ct ''NodeConfig'' of
             Some (ConfigHandle cf) \<Rightarrow>
               Inr \<lparr>NodeConfig = cf,
                    TipSelector = (case map_of ct ''TipSelector'' of None \<Rightarrow> None | Some h \<Rightarrow> Some ()),
                    Echo = (case map_of ct ''Echo'' of Some (EchoHandle e) \<Rightarrow> Some e | _ \<Rightarrow> None)\<rparr>
           | _ \<Rightarrow> Inl (MissingDependency ''NodeConfig'')))"

definition v1_startup ::
  "('s, 'a) backend \<Rightarrow> bool \<Rightarrow> ('s, 'a) container \<Rightarrow> 's state
     \<Rightarrow> startup_error + ('s state \<times> ('s, 'a) echo)" where
  "v1_startup B restapi_skipped ct st =
     (case inject ct of
        Inl err \<Rightarrow> Inl err
      | Inr deps \<Rightarrow> v1_configure B restapi_skipped deps st)"

text \<open>Several \<open>AddFeature\<close> calls in a row, as other plugins make them during startup.\<close>

definition AddFeatures :: "string list \<Rightarrow> 's state \<Rightarrow> 's state" where
  "AddFeatures fs st = foldl (\<lambda>acc f. AddFeature f acc) st fs"

section \<open>The synchronization gate\<close>

text \<open>
  Modelled from the spec: the gate itself (\<open>SyncManager.WaitForNodeSynced\<close> and the
  operations that call it) is not among the given sources; the sources hold only its
  timeout \<open>waitForNodeSyncedTimeout\<close> and the error \<open>ErrNodeNotSync\<close>.  Section 4.3: a
  gated request starts \<open>Unchecked\<close>; if the node already reports synced it goes to
  \<open>Synced\<close>, otherwise it enters \<open>Waiting\<close> up to the timeout, measured from the moment
  the check begins; if sync becomes true before the deadline it goes to \<open>Synced\<close> and
  the operation proceeds; if the deadline elapses first it goes to \<open>TimedOut\<close> and the
  request fails as not synced.

  Time is counted in whole milliseconds since the check began; \<open>synced t\<close> is what the
  node reports at millisecond \<open>t\<close>, and \<open>Waiting t\<close> has seen it false up to \<open>t\<close>.
\<close>

datatype gate_state = Unchecked | Waiting nat | Synced | TimedOut

definition timeout_ms :: nat where
  "timeout_ms = nat (waitForNodeSyncedTimeout div Millisecond)"

fun gate_step :: "(nat \<Rightarrow> bool) \<Rightarrow> gate_state \<Rightarrow> gate_state" where
  "gate_step synced Unchecked = (if synced 0 then Synced else Waiting 0)"
| "gate_step synced (Waiting t) =
     (if timeout_ms \<le> Suc t then TimedOut
      else if synced (Suc t) then Synced
      else Waiting (Suc t))"
| "gate_step synced Synced = Synced"
| "gate_step synced TimedOut = TimedOut"

fun gate_run :: "(nat \<Rightarrow> bool) \<Rightarrow> nat \<Rightarrow> gate_state" where
  "gate_run synced 0 = Unchecked"
| "gate_run synced (Suc n) = gate_step synced (gate_run synced n)"

text \<open>The arrows of the state machine; a finished gate stays where it is.\<close>

fun gate_arrow :: "gate_state \<Rightarrow> gate_state \<Rightarrow> bool" where
  "gate_arrow Unchecked (Waiting t) = True"
| "gate_arrow Unchecked Synced = True"
| "gate_arrow (Waiting t) (Waiting t') = (t' = Suc t)"
| "gate_arrow (Waiting t) Synced = True"
| "gate_arrow (Waiting t) TimedOut = True"
| "gate_arrow Synced Synced = True"
| "gate_arrow TimedOut TimedOut = True"
| "gate_arrow s s' = False"

text \<open>
  The gated operation: the gate is run until it has left \<open>Waiting\<close> (one step for the
  entry check and one per millisecond up to the deadline), then the operation runs or the
  request fails.
\<close>

definition gated :: "(nat \<Rightarrow> bool) \<Rightarrow> (api_error + 'r) \<Rightarrow> api_error + 'r" where
  "gated synced operation =
     (case gate_run synced (Suc timeout_ms) of
        Synced \<Rightarrow> operation
      | _ \<Rightarrow> Inl ErrNodeNotSync)"

section \<open>Peer membership behind the peer routes\<close>

text \<open>
  Modelled from the spec: \<open>removePeer\<close> and \<open>listPeers\<close> are not among the given
  sources.  Sections 5 and 8: peer removal mutates the peer membership kept by the
  peering collaborator; removing an unknown peer id yields NotFound; removing a known
  id removes it, so that it is absent from a subsequent listing.  The membership is the
  list of peer ids; a request without the path parameter is a malformed one.
\<close>

definition removePeer_membership :: "ctx \<Rightarrow> string list state \<Rightarrow> api_error option \<times> string list state" where
  "removePeer_membership c st =
     (case map_of (params c) restapipkg_ParameterPeerID of
        None \<Rightarrow> (Some ErrInvalidParameter, st)
      | Some peerID \<Rightarrow>
          (if peerID \<in> set (node st)
           then (None, st\<lparr>node := removeAll peerID (node st)\<rparr>)
           else (Some ErrNotFound, st)))"

definition listPeers_membership :: "ctx \<Rightarrow> string list state \<Rightarrow> (api_error + string list) \<times> string list state" where
  "listPeers_membership c st = (Inr (node st), st)"

definition with_membership ::
  "(string list, string list) backend \<Rightarrow> (string list, string list) backend" where
  "with_membership B =
     B\<lparr>call := (\<lambda>name. if name = ''listPeers'' then listPeers_membership else call B name),
       removePeer := removePeer_membership\<rparr>"

section \<open>Message submission behind the message routes\<close>

text \<open>
  Modelled from the spec: \<open>sendMessage\<close> is not among the given sources.  Sections 4.2,
  4.3, 7 and 8: submission is gated on synchronization (a gate that times out fails as
  not synced); a malformed body is an invalid parameter; with proof-of-work enabled an
  absent or insufficient proof-of-work is rejected, with proof-of-work disabled none is
  required; otherwise the message is handed to the message collaborator, which assigns
  its identifier, and the submission returns that identifier, which is not empty; a
  collaborator that assigns no identifier has failed (Internal).  The accepted bytes are
  kept under the identifier.

  What a well-formed body is, what a sufficient proof-of-work is and how the collaborator
  names a message are parameters.  The node state holds the sync report (\<open>sync_report t\<close>
  is what the node reports \<open>t\<close> milliseconds after the check began) and the accepted
  messages.
\<close>

record pool =
  sync_report :: "nat \<Rightarrow> bool"
  messages :: "(string \<times> bytes) list"


section \<open>The route tables written out, and a sample node\<close>

text \<open>
  The routes that \<open>v1.configure\<close> and \<open>debug.configure\<close> add to the router, as lists;
  \<open>tips\<close> says whether the tip selector is present.  Lemmas \<open>v1_configure_routes\<close> and
  \<open>debug_configure_routes\<close> below prove that these are the lists the two functions build.
\<close>

definition v1_route_table :: "('s, 'a) backend \<Rightarrow> bool \<Rightarrow> ('s, 'a) echo" where
  "v1_route_table B tips =
     [\<lparr>verb = GET, path = ''/api/v1'' @ RouteInfo, handler = handle_info\<rparr>]
     @ (if tips
        then [\<lparr>verb = GET, path = ''/api/v1'' @ RouteTips, handler = respond_ok (call B ''tips'')\<rparr>]
        else [])
     @ [\<lparr>verb = GET, path = ''/api/v1'' @ RouteMessageMetadata,
          handler = respond_ok (call B ''messageMetadataByID'')\<rparr>,
        \<lparr>verb = GET, path = ''/api/v1'' @ RouteMessageData,
          handler = respond_ok (call B ''messageByID'')\<rparr>,
        \<lparr>verb = GET, path = ''/api/v1'' @ RouteMessageBytes,
          handler = handle_message_bytes B\<rparr>,
        \<lparr>verb = GET, path = ''/api/v1'' @ RouteMessageChildren,
          handler = respond_ok (call B ''childrenIDsByID'')\<rparr>,
        \<lparr>verb = GET, path = ''/api/v1'' @ RouteMessages,
          handler = respond_ok (call B ''messageIDsByIndex'')\<rparr>,
        \<lparr>verb = POST, path = ''/api/v1'' @ RouteMessages,
          handler = handle_send_message B\<rparr>,
        \<lparr>verb = GET, path = ''/api/v1'' @ RouteTransactionsIncludedMessage,
          handler = respond_ok (call B ''messageByTransactionID'')\<rparr>,
        \<lparr>verb = GET, path = ''/api/v1'' @ RouteMilestone,
          handler = respond_ok (call B ''milestoneByIndex'')\<rparr>,
        \<lparr>verb = GET, path = ''/api/v1'' @ RouteMilestoneUTXOChanges,
          handler = respond_ok (call B ''milestoneUTXOChangesByIndex'')\<rparr>,
        \<lparr>verb = GET, path = ''/api/v1'' @ RouteOutputs,
          handler = respond_ok (call B ''outputs'')\<rparr>,
        \<lparr>verb = GET, path = ''/api/v1'' @ RouteOutput,
          handler = respond_ok (call B ''outputByID'')\<rparr>,
        \<lparr>verb = GET, path = ''/api/v1'' @ RouteAddressBech32Outputs,
          handler = respond_ok (call B ''outputsIDsByBech32Address'')\<rparr>,
        \<lparr>verb = GET, path = ''/api/v1'' @ RouteAddressEd25519Outputs,
          handler = respond_ok (call B ''outputsIDsByEd25519Address'')\<rparr>,
        \<lparr>verb = GET, path = ''/api/v1'' @ RouteAddressAliasOutputs,
          handler = respond_ok (call B ''outputsIDsByAliasAddress'')\<rparr>,
        \<lparr>verb = GET, path = ''/api/v1'' @ RouteAddressNFTOutputs,
          handler = respond_ok (call B ''outputsIDsByNFTAddress'')\<rparr>,
        \<lparr>verb = GET, path = ''/api/v1'' @ RouteAlias,
          handler = respond_ok (call B ''aliasByID'')\<rparr>,
        \<lparr>verb = GET, path = ''/api/v1'' @ RouteNFT,
          handler = respond_ok (call B ''nftByID'')\<rparr>,
        \<lparr>verb = GET, path = ''/api/v1'' @ RouteFoundry,
          handler = respond_ok (call B ''foundryByID'')\<rparr>,
        \<lparr>verb = GET, path = ''/api/v1'' @ RouteTreasury,
          handler = respond_ok (call B ''treasury'')\<rparr>,
        \<lparr>verb = GET, path = ''/api/v1'' @ RouteReceipts,
          handler = respond_ok (call B ''receipts'')\<rparr>,
        \<lparr>verb = GET, path = ''/api/v1'' @ RouteReceiptsMigratedAtIndex,
          handler = respond_ok (call B ''receiptsByMigratedAtIndex'')\<rparr>,
        \<lparr>verb = GET, path = ''/api/v1'' @ RoutePeer,
          handler = respond_ok (call B ''getPeer'')\<rparr>,
        \<lparr>verb = DELETE, path = ''/api/v1'' @ RoutePeer,
          handler = handle_remove_peer B\<rparr>,
        \<lparr>verb = GET, path = ''/api/v1'' @ RoutePeers,
          handler = respond_ok (call B ''listPeers'')\<rparr>,
        \<lparr>verb = POST, path = ''/api/v1'' @ RoutePeers,
          handler = respond_ok (call B ''addPeer'')\<rparr>,
        \<lparr>verb = POST, path = ''/api/v1'' @ RouteControlDatabasePrune,
          handler = respond_ok (call B ''pruneDatabase'')\<rparr>,
        \<lparr>verb = POST, path = ''/api/v1'' @ RouteControlSnapshotsCreate,
          handler = respond_ok (call B ''createSnapshots'')\<rparr>]"

definition debug_route_table :: "('s, 'a) backend \<Rightarrow> ('s, 'a) echo" where
  "debug_route_table B =
     [\<lparr>verb = GET, path = ''/api/plugins/debug'' @ RouteDebugSolidifier,
        handler = handle_solidifier B\<rparr>,
      \<lparr>verb = GET, path = ''/api/plugins/debug'' @ RouteDebugOutputs,
        handler = respond_ok (call B ''debugOutputsIDs'')\<rparr>,
      \<lparr>verb = GET, path = ''/api/plugins/debug'' @ RouteDebugOutputsUnspent,
        handler = respond_ok (call B ''debugUnspentOutputsIDs'')\<rparr>,
      \<lparr>verb = GET, path = ''/api/plugins/debug'' @ RouteDebugOutputsSpent,
        handler = respond_ok (call B ''debugSpentOutputsIDs'')\<rparr>,
      \<lparr>verb = GET, path = ''/api/plugins/debug'' @ RouteDebugAddresses,
        handler = respond_ok (call B ''debugAddresses'')\<rparr>,
      \<lparr>verb = GET, path = ''/api/plugins/debug'' @ RouteDebugAddressesEd25519,
        handler = respond_ok (call B ''debugAddressesEd25519'')\<rparr>,
      \<lparr>verb = GET, path = ''/api/plugins/debug'' @ RouteDebugMilestoneDiffs,
        handler = respond_ok (call B ''debugMilestoneDiff'')\<rparr>,
      \<lparr>verb = GET, path = ''/api/plugins/debug'' @ RouteDebugRequests,
        handler = respond_ok (call B ''debugRequests'')\<rparr>,
      \<lparr>verb = GET, path = ''/api/plugins/debug'' @ RouteDebugMessageCone,
        handler = respond_ok (call B ''debugMessageCone'')\<rparr>]"

text \<open>
  A sample node on which the theorems are instantiated: every operation succeeds with
  an empty result, two peers are known, proof-of-work is switched off, no tip selector,
  and a router without routes.
\<close>

definition sample_backend :: "(string list, string list) backend" where
  "sample_backend =
     with_membership
       \<lparr>call = (\<lambda>name c st. (Inr [], st)),
        messageBytesByID = (\<lambda>c st. (Inr (request_body c), st)),
        sendMessage = (\<lambda>c st. (Inr \<lparr>MessageID = ''4d1a''\<rparr>, st)),
        removePeer = (\<lambda>c st. (None, st)),
        TriggerSolidifier = (\<lambda>n. n)\<rparr>"

definition sample_config :: "bool \<Rightarrow> configuration" where
  "sample_config pow =
     \<lparr>config_Bool = (\<lambda>k. case k of CfgRestAPIPoWEnabled \<Rightarrow> pow | _ \<Rightarrow> False),
      config_Int = (\<lambda>k. 1)\<rparr>"

definition sample_deps :: "(string list, string list) v1_dependencies" where
  "sample_deps = \<lparr>NodeConfig = sample_config False, TipSelector = None, Echo = Some []\<rparr>"

definition sample_state :: "string list state" where
  "sample_state =
     \<lparr>powEnabled = False, powWorkerCount = 0, features = [], node = [''peerA'', ''peerB'']\<rparr>"

text \<open>A container that provides every entry of the bundle except the optional tip selector.\<close>

definition sample_container :: "(string list, string list) container" where
  "sample_container =
     (''Echo'', EchoHandle []) # (''NodeConfig'', ConfigHandle (sample_config False)) #
     map (\<lambda>f. (fst f, Subsystem)) (filter (\<lambda>f. \<not> snd f) v1_dependencies_fields)"




section \<open>Registration and routing lemmas\<close>

lemmas v1_route_defs = RouteInfo_def RouteTips_def RouteMessageData_def RouteMessageMetadata_def
  RouteMessageBytes_def RouteMessageChildren_def RouteMessages_def
  RouteTransactionsIncludedMessage_def RouteMilestone_def RouteMilestoneUTXOChanges_def
  RouteOutputs_def RouteOutput_def RouteAddressBech32Outputs_def RouteAddressEd25519Outputs_def
  RouteAddressAliasOutputs_def RouteAddressNFTOutputs_def RouteAlias_def RouteNFT_def
  RouteFoundry_def RouteTreasury_def RouteReceipts_def RouteReceiptsMigratedAtIndex_def
  RoutePeer_def RoutePeers_def RouteControlDatabasePrune_def RouteControlSnapshotsCreate_def
  restapipkg_ParameterMessageID_def restapipkg_ParameterTransactionID_def
  restapipkg_ParameterMilestoneIndex_def restapipkg_ParameterOutputID_def
  restapipkg_ParameterAddress_def restapipkg_ParameterAliasID_def restapipkg_ParameterNFTID_def
  restapipkg_ParameterFoundryID_def restapipkg_ParameterPeerID_def

lemmas debug_route_defs = RouteDebugSolidifier_def RouteDebugOutputs_def
  RouteDebugOutputsUnspent_def RouteDebugOutputsSpent_def RouteDebugAddresses_def
  RouteDebugAddressesEd25519_def RouteDebugMilestoneDiffs_def RouteDebugRequests_def
  RouteDebugMessageCone_def debug_ParameterMessageID_def debug_ParameterMilestoneIndex_def

lemma register_Nil: "register [] g = g"
  by (simp add: register_def)

lemma register_Cons: "register (f # fs) g = register fs (f g)"
  by (simp add: register_def)

lemma echo_Add:
  "echo (Add m p h g) = echo g @ [\<lparr>verb = m, path = prefix g @ p, handler = h\<rparr>]"
  by (simp add: Add_def)

lemma prefix_Add: "prefix (Add m p h g) = prefix g"
  by (simp add: Add_def)

lemma find_route_append:
  "find_route (xs @ ys) m p =
     (case find_route xs m p of Some r \<Rightarrow> Some r | None \<Rightarrow> find_route ys m p)"
  by (induction xs) (auto split: option.splits)

lemma path_known_append: "path_known (xs @ ys) p = (path_known xs p \<or> path_known ys p)"
  by (induction xs) auto

lemma find_route_unknown: "\<not> path_known e p \<Longrightarrow> find_route e m p = None"
  by (induction e) (auto split: if_splits)

text \<open>What \<open>configure\<close> leaves behind when it returns: the routes and the package variables.\<close>

lemma v1_configure_routes:
  assumes "v1_configure B sk deps st = Inr (st', e')" and "Echo deps = Some e"
  shows "e' = e @ v1_route_table B (TipSelector deps \<noteq> None)"
  using assms
  by (simp add: v1_configure_def Let_def register_Nil register_Cons echo_Add prefix_Add
        Group_def v1_route_table_def split: if_splits)

lemma v1_configure_state:
  assumes "v1_configure B sk deps st = Inr (st', e')"
  shows "st' = st\<lparr>powEnabled := config_Bool (NodeConfig deps) CfgRestAPIPoWEnabled,
                  powWorkerCount := config_Int (NodeConfig deps) CfgRestAPIPoWWorkerCount,
                  features := (if config_Bool (NodeConfig deps) CfgRestAPIPoWEnabled
                               then [''PoW''] else [])\<rparr>"
  using assms
  by (simp add: v1_configure_def Let_def split: if_splits option.splits)

lemma v1_configure_ok:
  "(\<exists>st' e'. v1_configure B sk deps st = Inr (st', e')) = (\<not> sk \<and> Echo deps \<noteq> None)"
  by (auto simp add: v1_configure_def Let_def split: if_splits option.splits)

lemma debug_configure_routes:
  "debug_configure B deps = debug_Echo deps @ debug_route_table B"
  by (simp add: debug_configure_def Let_def register_Nil register_Cons echo_Add prefix_Add
        Group_def debug_route_table_def)

lemma sample_configure:
  "v1_configure sample_backend False sample_deps sample_state =
     Inr (sample_state\<lparr>powWorkerCount := 1\<rparr>, v1_route_table sample_backend False)"
  by (simp add: v1_configure_def Let_def register_Nil register_Cons echo_Add prefix_Add
        Group_def v1_route_table_def sample_deps_def sample_state_def sample_config_def)

lemma tips_unknown_without_selector:
  "\<not> path_known (v1_route_table B False) ''/api/v1/tips''"
  by (simp add: v1_route_table_def v1_route_defs match_path_def)

lemma AddFeatures_features: "features (AddFeatures fs st) = features st @ fs"
  unfolding AddFeatures_def
  by (induction fs arbitrary: st) (simp_all add: AddFeature_def)

lemma find_info:
  "find_route (v1_route_table B tips) GET ''/api/v1/info'' =
     Some (\<lparr>verb = GET, path = ''/api/v1/info'', handler = handle_info\<rparr>, [])"
  by (simp add: v1_route_table_def v1_route_defs match_path_def)

lemma serve_info:
  assumes "\<not> path_known e ''/api/v1/info''"
  shows "serve (e @ v1_route_table B tips)
           \<lparr>req_method = GET, req_path = ''/api/v1/info'', req_body = b\<rparr> s =
         (Inr \<lparr>status = 200, header = [], body = JSONBody (Info \<lparr>Features = features s\<rparr>)\<rparr>, s)"
  using find_route_unknown[OF assms, of GET]
  by (simp add: serve_def find_route_append find_info handle_info_def info_def
        JSONResponse_def StatusOK_def)

section \<open>Optional route groups\<close>

text \<open>
  Claim C1.  When the tip selector is absent at composition time, \<open>configure\<close> registers
  no route for the tips path: on a router that had no route for \<open>/api/v1/tips\<close> before,
  the path is still unknown afterwards, and a request to it under any verb, with any
  body, in any state, is answered by the router itself as not found (404); no closure
  runs and the state is untouched.
\<close>

theorem tips_unrouted_without_tip_selector:
  assumes "TipSelector deps = None"
    and "v1_configure B restapi_skipped deps st = Inr (st', e')"
    and "Echo deps = Some e"
    and "\<not> path_known e ''/api/v1/tips''"
  shows "\<not> path_known e' ''/api/v1/tips'' \<and>
         serve e' \<lparr>req_method = m, req_path = ''/api/v1/tips'', req_body = b\<rparr> s
           = (Inl ErrNotFound, s) \<and>
         error_status ErrNotFound = 404"
proof -
  have e': "e' = e @ v1_route_table B False"
    using v1_configure_routes[OF assms(2,3)] assms(1) by simp
  have nk: "\<not> path_known e' ''/api/v1/tips''"
    using assms(4) tips_unknown_without_selector[of B]
    by (simp add: e' path_known_append)
  then have "find_route e' m ''/api/v1/tips'' = None"
    by (rule find_route_unknown)
  with nk show ?thesis by (simp add: serve_def)
qed

text \<open>
  Witness for C1: the sample node has no tip selector; its \<open>configure\<close> succeeds on the
  empty router, and \<open>GET /api/v1/tips\<close> is not found.
\<close>

theorem tips_unrouted_without_tip_selector_witness:
  "TipSelector sample_deps = None \<and>
   serve (v1_route_table sample_backend False)
     \<lparr>req_method = GET, req_path = ''/api/v1/tips'', req_body = []\<rparr> sample_state
     = (Inl ErrNotFound, sample_state)"
  using tips_unrouted_without_tip_selector[of sample_deps sample_backend False sample_state
          "sample_state\<lparr>powWorkerCount := 1\<rparr>" "v1_route_table sample_backend False" "[]"
          GET "[]" sample_state]
        sample_configure
  by (simp add: sample_deps_def)

section \<open>The feature registry and the info route\<close>

text \<open>
  Claim C3, as stated, fails: \<open>configure\<close> resets the feature list, so a string added
  before \<open>configure\<close> runs is lost.  On the sample node \<open>AddFeature\<close> is called with
  \<open>Participation\<close>, then \<open>configure\<close> runs, and the info response that follows lists no
  feature at all.
\<close>

theorem feature_added_before_configure_counterexample:
  "v1_configure sample_backend False sample_deps (AddFeature ''Participation'' sample_state) =
     Inr (sample_state\<lparr>powWorkerCount := 1\<rparr>, v1_route_table sample_backend False) \<and>
   serve (v1_route_table sample_backend False)
     \<lparr>req_method = GET, req_path = ''/api/v1/info'', req_body = []\<rparr>
     (sample_state\<lparr>powWorkerCount := 1\<rparr>) =
     (Inr \<lparr>status = 200, header = [], body = JSONBody (Info \<lparr>Features = []\<rparr>)\<rparr>,
      sample_state\<lparr>powWorkerCount := 1\<rparr>)"
proof -
  have "v1_configure sample_backend False sample_deps (AddFeature ''Participation'' sample_state) =
     Inr (sample_state\<lparr>powWorkerCount := 1\<rparr>, v1_route_table sample_backend False)"
    by (simp add: v1_configure_def Let_def register_Nil register_Cons echo_Add prefix_Add
        Group_def v1_route_table_def sample_deps_def sample_state_def sample_config_def
        AddFeature_def)
  moreover have "features (sample_state\<lparr>powWorkerCount := 1\<rparr>) = []"
    by (simp add: sample_state_def)
  ultimately show ?thesis
    using serve_info[of "[]" sample_backend False "[]" "sample_state\<lparr>powWorkerCount := 1\<rparr>"]
    by simp
qed

text \<open>
  Claim C3, amended.  Every call of \<open>AddFeature\<close> appends its string to the feature
  list.  \<open>configure\<close> starts the list afresh (with \<open>PoW\<close> when proof-of-work is enabled,
  empty otherwise), whatever was added earlier; the strings added after \<open>configure\<close> and
  before serving are all in the info response, behind that start, in call order and with
  duplicates kept.  The info request leaves the state as it was, so every later info
  response carries the same list.
\<close>

theorem features_added_after_configure_are_served:
  assumes "v1_configure B restapi_skipped deps (AddFeatures earlier st) = Inr (st', e')"
    and "Echo deps = Some e"
    and "\<not> path_known e ''/api/v1/info''"
  shows "features (AddFeature f s) = features s @ [f] \<and>
         serve e' \<lparr>req_method = GET, req_path = ''/api/v1/info'', req_body = b\<rparr>
             (AddFeatures later st') =
           (Inr \<lparr>status = 200, header = [],
                 body = JSONBody (Info \<lparr>Features =
                   (if config_Bool (NodeConfig deps) CfgRestAPIPoWEnabled then [''PoW''] else [])
                   @ later\<rparr>)\<rparr>,
            AddFeatures later st')"
proof -
  have "e' = e @ v1_route_table B (TipSelector deps \<noteq> None)"
    using assms(1,2) by (rule v1_configure_routes)
  moreover have "features st' = (if config_Bool (NodeConfig deps) CfgRestAPIPoWEnabled
                               then [''PoW''] else [])"
    using v1_configure_state[OF assms(1)] by simp
  ultimately show ?thesis
    using serve_info[OF assms(3)] by (simp add: AddFeatures_features AddFeature_def)
qed

text \<open>
  Witness for the amended C3: on the sample node one feature is added before
  \<open>configure\<close> and three, two of them equal, after it; the info response lists the three.
\<close>

theorem features_added_after_configure_witness:
  "serve (v1_route_table sample_backend False)
     \<lparr>req_method = GET, req_path = ''/api/v1/info'', req_body = []\<rparr>
     (AddFeatures [''MQTT'', ''Participation'', ''MQTT''] (sample_state\<lparr>powWorkerCount := 1\<rparr>)) =
     (Inr \<lparr>status = 200, header = [],
           body = JSONBody (Info \<lparr>Features = [''MQTT'', ''Participation'', ''MQTT'']\<rparr>)\<rparr>,
      AddFeatures [''MQTT'', ''Participation'', ''MQTT''] (sample_state\<lparr>powWorkerCount := 1\<rparr>))"
proof -
  have c: "v1_configure sample_backend False sample_deps (AddFeatures [''Spammer''] sample_state) =
     Inr (sample_state\<lparr>powWorkerCount := 1\<rparr>, v1_route_table sample_backend False)"
    by (simp add: v1_configure_def Let_def register_Nil register_Cons echo_Add prefix_Add
        Group_def v1_route_table_def sample_deps_def sample_state_def sample_config_def
        AddFeature_def AddFeatures_def)
  have e: "Echo sample_deps = Some []" by (simp add: sample_deps_def)
  have k: "\<not> path_known [] ''/api/v1/info''" by simp
  have p: "\<not> config_Bool (NodeConfig sample_deps) CfgRestAPIPoWEnabled"
    by (simp add: sample_deps_def sample_config_def)
  show ?thesis
    using features_added_after_configure_are_served[OF c e k, of "''x''" sample_state "[]"
            "[''MQTT'', ''Participation'', ''MQTT'']"] p
    by simp
qed

text \<open>
  Claim C5.  Right after \<open>configure\<close>, \<open>GET /api/v1/info\<close> answers 200 with the feature
  list of the package; that list contains \<open>PoW\<close> exactly when proof-of-work is enabled in
  the node configuration, and it is empty when proof-of-work is disabled.
\<close>

theorem info_advertises_pow_iff_enabled:
  assumes "v1_configure B restapi_skipped deps st = Inr (st', e')"
    and "Echo deps = Some e"
    and "\<not> path_known e ''/api/v1/info''"
  shows "serve e' \<lparr>req_method = GET, req_path = ''/api/v1/info'', req_body = b\<rparr> st' =
           (Inr \<lparr>status = 200, header = [],
                 body = JSONBody (Info \<lparr>Features = features st'\<rparr>)\<rparr>, st') \<and>
         (''PoW'' \<in> set (features st') \<longleftrightarrow> config_Bool (NodeConfig deps) CfgRestAPIPoWEnabled) \<and>
         (\<not> config_Bool (NodeConfig deps) CfgRestAPIPoWEnabled \<longrightarrow> features st' = [])"
proof -
  have "e' = e @ v1_route_table B (TipSelector deps \<noteq> None)"
    using assms(1,2) by (rule v1_configure_routes)
  moreover have "features st' = (if config_Bool (NodeConfig deps) CfgRestAPIPoWEnabled
                               then [''PoW''] else [])"
    using v1_configure_state[OF assms(1)] by simp
  ultimately show ?thesis
    using serve_info[OF assms(3)] by simp
qed

text \<open>
  Witness for C5: the sample node has proof-of-work disabled; its info response is 200
  with an empty feature list.
\<close>

theorem info_advertises_pow_iff_enabled_witness:
  "serve (v1_route_table sample_backend False)
     \<lparr>req_method = GET, req_path = ''/api/v1/info'', req_body = []\<rparr>
     (sample_state\<lparr>powWorkerCount := 1\<rparr>) =
     (Inr \<lparr>status = 200, header = [], body = JSONBody (Info \<lparr>Features = []\<rparr>)\<rparr>,
      sample_state\<lparr>powWorkerCount := 1\<rparr>) \<and>
   \<not> config_Bool (NodeConfig sample_deps) CfgRestAPIPoWEnabled"
proof -
  have e: "Echo sample_deps = Some []" by (simp add: sample_deps_def)
  have k: "\<not> path_known [] ''/api/v1/info''" by simp
  have p: "\<not> config_Bool (NodeConfig sample_deps) CfgRestAPIPoWEnabled"
    by (simp add: sample_deps_def sample_config_def)
  show ?thesis
    using info_advertises_pow_iff_enabled[OF sample_configure e k, of "[]"] p
    by simp
qed

section \<open>The debug surface\<close>

text \<open>
  Claim C9.  The debug plugin is created disabled (the gateway plugin is created
  enabled).  Its \<open>configure\<close> adds exactly nine routes to the router, all of them \<open>GET\<close>,
  all under \<open>/api/plugins/debug\<close> and none under \<open>/api/v1\<close>, where every route of the
  gateway lives: the solidifier trigger, the listings of all, unspent and spent output
  ids, the listings of known addresses (all, ed25519), the milestone diff by index, the
  pending requests, and the message cone by id, each bound to its operation.
\<close>

theorem debug_surface_routes:
  "Status debug_Plugin = Disabled \<and>
   Status v1_Plugin = StatusEnabled \<and>
   drop (length e) (debug_configure B \<lparr>debug_Echo = e\<rparr>) = debug_configure B \<lparr>debug_Echo = []\<rparr> \<and>
   map (\<lambda>r. (verb r, path r)) (debug_configure B \<lparr>debug_Echo = []\<rparr>) =
     [(GET, ''/api/plugins/debug/solidifier''),
      (GET, ''/api/plugins/debug/outputs''),
      (GET, ''/api/plugins/debug/outputs/unspent''),
      (GET, ''/api/plugins/debug/outputs/spent''),
      (GET, ''/api/plugins/debug/addresses''),
      (GET, ''/api/plugins/debug/addresses/ed25519''),
      (GET, ''/api/plugins/debug/ms-diff/:milestoneIndex''),
      (GET, ''/api/plugins/debug/requests''),
      (GET, ''/api/plugins/debug/message-cones/:messageID'')] \<and>
   map handler (debug_configure B \<lparr>debug_Echo = []\<rparr>) =
     [handle_solidifier B,
      respond_ok (call B ''debugOutputsIDs''),
      respond_ok (call B ''debugUnspentOutputsIDs''),
      respond_ok (call B ''debugSpentOutputsIDs''),
      respond_ok (call B ''debugAddresses''),
      respond_ok (call B ''debugAddressesEd25519''),
      respond_ok (call B ''debugMilestoneDiff''),
      respond_ok (call B ''debugRequests''),
      respond_ok (call B ''debugMessageCone'')] \<and>
   map (\<lambda>r. take 8 (path r) = ''/api/v1/'') (debug_configure B \<lparr>debug_Echo = []\<rparr>) =
     replicate 9 False \<and>
   map (\<lambda>r. take 8 (path r) = ''/api/v1/'') (v1_route_table B True) = replicate 29 True"
  by (simp add: debug_configure_routes debug_route_table_def debug_route_defs debug_Plugin_def
      v1_Plugin_def v1_route_table_def v1_route_defs eval_nat_numeral)

text \<open>
  Claim C10.  The closure behind \<open>GET /solidifier\<close> has no error branch: for every
  context and every state it triggers the solidifier once and answers 200 with the
  string \<open>solidifier triggered\<close>; and this is the closure that a \<open>GET\<close> of
  \<open>/api/plugins/debug/solidifier\<close> reaches.
\<close>

theorem solidifier_trigger_never_fails:
  "handle_solidifier B c st =
     (Inr \<lparr>status = 200, header = response_header c,
           body = JSONBody (Text ''solidifier triggered'')\<rparr>,
      st\<lparr>node := TriggerSolidifier B (node st)\<rparr>) \<and>
   serve (debug_configure B \<lparr>debug_Echo = []\<rparr>)
     \<lparr>req_method = GET, req_path = ''/api/plugins/debug/solidifier'', req_body = b\<rparr> st =
     (Inr \<lparr>status = 200, header = [], body = JSONBody (Text ''solidifier triggered'')\<rparr>,
      st\<lparr>node := TriggerSolidifier B (node st)\<rparr>)"
  by (simp add: debug_configure_routes debug_route_table_def serve_def match_path_def
      debug_route_defs handle_solidifier_def JSONResponse_def StatusOK_def)

section \<open>Peer removal\<close>

lemma split_path_no_slash: "CHR ''/'' \<notin> set s \<Longrightarrow> split_path s = [s]"
  by (induction s) auto

lemma find_remove_peer:
  assumes "peerID \<noteq> []" and "CHR ''/'' \<notin> set peerID"
  shows "find_route (v1_route_table B tips) DELETE (''/api/v1/peers/'' @ peerID) =
     Some (\<lparr>verb = DELETE, path = ''/api/v1/peers/:id'', handler = handle_remove_peer B\<rparr>,
           [(''id'', peerID)])"
  using assms
  by (simp add: v1_route_table_def v1_route_defs match_path_def split_path_no_slash)

lemma find_list_peers:
  "find_route (v1_route_table B tips) GET ''/api/v1/peers'' =
     Some (\<lparr>verb = GET, path = ''/api/v1/peers'', handler = respond_ok (call B ''listPeers'')\<rparr>, [])"
  by (simp add: v1_route_table_def v1_route_defs match_path_def)

lemma sample_membership: "with_membership sample_backend = sample_backend"
  by (simp add: sample_backend_def with_membership_def fun_eq_iff)

text \<open>
  Claim C7.  With the peer membership behind the peer routes, \<open>DELETE /api/v1/peers/:id\<close>
  for a peer id that is not a member fails as not found (404) and leaves the membership
  as it was; for a member it answers 204 with an empty body, and the \<open>GET /api/v1/peers\<close>
  that follows answers 200 with a listing that does not contain the id.  The peer id is
  any non-empty path segment.
\<close>

theorem remove_peer_unknown_and_known:
  assumes "v1_configure (with_membership B) restapi_skipped deps st = Inr (st', e')"
    and "Echo deps = Some e"
    and "\<not> path_known e (''/api/v1/peers/'' @ peerID)"
    and "\<not> path_known e ''/api/v1/peers''"
    and "peerID \<noteq> []" and "CHR ''/'' \<notin> set peerID"
  shows "(peerID \<notin> set (node s) \<longrightarrow>
            serve e' \<lparr>req_method = DELETE, req_path = ''/api/v1/peers/'' @ peerID, req_body = b\<rparr> s
              = (Inl ErrNotFound, s) \<and> error_status ErrNotFound = 404) \<and>
         (peerID \<in> set (node s) \<longrightarrow>
            serve e' \<lparr>req_method = DELETE, req_path = ''/api/v1/peers/'' @ peerID, req_body = b\<rparr> s
              = (Inr \<lparr>status = 204, header = [], body = NoBody\<rparr>,
                 s\<lparr>node := removeAll peerID (node s)\<rparr>) \<and>
            serve e' \<lparr>req_method = GET, req_path = ''/api/v1/peers'', req_body = b'\<rparr>
                (s\<lparr>node := removeAll peerID (node s)\<rparr>)
              = (Inr \<lparr>status = 200, header = [],
                      body = JSONBody (Data (removeAll peerID (node s)))\<rparr>,
                 s\<lparr>node := removeAll peerID (node s)\<rparr>) \<and>
            peerID \<notin> set (removeAll peerID (node s)))"
proof -
  let ?B = "with_membership B"
  have e': "e' = e @ v1_route_table ?B (TipSelector deps \<noteq> None)"
    using assms(1,2) by (rule v1_configure_routes)
  have del: "serve e' \<lparr>req_method = DELETE, req_path = ''/api/v1/peers/'' @ peerID, req_body = b\<rparr> t
               = handle_remove_peer ?B
                   \<lparr>params = [(''id'', peerID)], request_body = b, response_header = []\<rparr> t" for t
    using find_route_unknown[OF assms(3), of DELETE] find_remove_peer[OF assms(5,6), of ?B]
    by (simp add: serve_def e' find_route_append)
  have lst: "serve e' \<lparr>req_method = GET, req_path = ''/api/v1/peers'', req_body = b'\<rparr> t
               = respond_ok (call ?B ''listPeers'')
                   \<lparr>params = [], request_body = b', response_header = []\<rparr> t" for t
    using find_route_unknown[OF assms(4), of GET] find_list_peers[of ?B]
    by (simp add: serve_def e' find_route_append)
  have rm: "removePeer ?B = removePeer_membership"
    by (simp add: with_membership_def)
  have ls: "call ?B ''listPeers'' = listPeers_membership"
    by (simp add: with_membership_def)
  show ?thesis
    unfolding del lst
    by (simp add: handle_remove_peer_def respond_ok_def rm ls removePeer_membership_def
        listPeers_membership_def restapipkg_ParameterPeerID_def NoContent_def JSONResponse_def
        StatusNoContent_def StatusOK_def)
qed

text \<open>
  Witness for C7: the sample node knows \<open>peerA\<close> and \<open>peerB\<close>.  Removing \<open>peerA\<close> gives
  204 and a listing of \<open>peerB\<close> alone; removing \<open>peerC\<close> is not found.
\<close>

theorem remove_peer_witness:
  "serve (v1_route_table sample_backend False)
     \<lparr>req_method = DELETE, req_path = ''/api/v1/peers/peerA'', req_body = []\<rparr> sample_state =
     (Inr \<lparr>status = 204, header = [], body = NoBody\<rparr>, sample_state\<lparr>node := [''peerB'']\<rparr>) \<and>
   serve (v1_route_table sample_backend False)
     \<lparr>req_method = GET, req_path = ''/api/v1/peers'', req_body = []\<rparr>
     (sample_state\<lparr>node := [''peerB'']\<rparr>) =
     (Inr \<lparr>status = 200, header = [], body = JSONBody (Data [''peerB''])\<rparr>,
      sample_state\<lparr>node := [''peerB'']\<rparr>) \<and>
   serve (v1_route_table sample_backend False)
     \<lparr>req_method = DELETE, req_path = ''/api/v1/peers/peerC'', req_body = []\<rparr> sample_state =
     (Inl ErrNotFound, sample_state)"
proof -
  have c: "v1_configure (with_membership sample_backend) False sample_deps sample_state =
     Inr (sample_state\<lparr>powWorkerCount := 1\<rparr>, v1_route_table sample_backend False)"
    using sample_configure by (simp add: sample_membership)
  have e: "Echo sample_deps = Some []" by (simp add: sample_deps_def)
  have n: "node sample_state = [''peerA'', ''peerB'']" by (simp add: sample_state_def)
  have a: "removeAll ''peerA'' (node sample_state) = [''peerB'']" by (simp add: n)
  have a_in: "''peerA'' \<in> set (node sample_state)" by (simp add: n)
  have c_out: "''peerC'' \<notin> set (node sample_state)" by (simp add: n)
  have A: "serve (v1_route_table sample_backend False)
     \<lparr>req_method = DELETE, req_path = ''/api/v1/peers/'' @ ''peerA'', req_body = []\<rparr> sample_state =
     (Inr \<lparr>status = 204, header = [], body = NoBody\<rparr>, sample_state\<lparr>node := [''peerB'']\<rparr>) \<and>
   serve (v1_route_table sample_backend False)
     \<lparr>req_method = GET, req_path = ''/api/v1/peers'', req_body = []\<rparr>
     (sample_state\<lparr>node := [''peerB'']\<rparr>) =
     (Inr \<lparr>status = 200, header = [], body = JSONBody (Data [''peerB''])\<rparr>,
      sample_state\<lparr>node := [''peerB'']\<rparr>)"
    using remove_peer_unknown_and_known[OF c e, of "''peerA''" sample_state "[]" "[]"] a a_in
    by simp
  have C: "serve (v1_route_table sample_backend False)
     \<lparr>req_method = DELETE, req_path = ''/api/v1/peers/'' @ ''peerC'', req_body = []\<rparr> sample_state =
     (Inl ErrNotFound, sample_state)"
    using remove_peer_unknown_and_known[OF c e, of "''peerC''" sample_state "[]" "[]"] c_out
    by simp
  from A C show ?thesis by simp
qed

section \<open>The synchronization gate: deadline and outcome\<close>

lemma timeout_ms_value: "timeout_ms = 2000"
  by (simp add: timeout_ms_def waitForNodeSyncedTimeout_def Millisecond_def)

lemma gate_run_waiting:
  "k < timeout_ms \<Longrightarrow> (\<And>t. t \<le> k \<Longrightarrow> \<not> synced t) \<Longrightarrow> gate_run synced (Suc k) = Waiting k"
proof (induction k)
  case 0
  then show ?case by simp
next
  case (Suc k)
  then have "gate_run synced (Suc k) = Waiting k" by simp
  moreover have "\<not> synced (Suc k)" using Suc.prems(2) by simp
  ultimately show ?case using Suc.prems(1) by simp
qed

lemma gate_run_first_sync:
  assumes "t0 < timeout_ms" and "synced t0" and "\<And>t. t < t0 \<Longrightarrow> \<not> synced t"
  shows "gate_run synced (Suc t0) = Synced"
proof (cases t0)
  case 0
  with assms(2) show ?thesis by simp
next
  case (Suc k)
  have "gate_run synced (Suc k) = Waiting k"
    using assms(1,3) Suc by (intro gate_run_waiting) simp_all
  then show ?thesis using assms(1,2) Suc by simp
qed

lemma gate_run_synced_stays: "gate_run synced n = Synced \<Longrightarrow> gate_run synced (n + k) = Synced"
  by (induction k) simp_all

lemma gate_synced_before_deadline:
  assumes "t < timeout_ms" and "synced t"
  shows "gate_run synced (Suc timeout_ms) = Synced"
proof -
  define t0 where "t0 = (LEAST u. synced u)"
  have s0: "synced t0" unfolding t0_def using assms(2) by (rule LeastI)
  have le: "t0 \<le> t" unfolding t0_def using assms(2) by (rule Least_le)
  have mn: "\<not> synced u" if "u < t0" for u
    using that not_less_Least unfolding t0_def by blast
  have lt: "t0 < timeout_ms" using le assms(1) by simp
  have "gate_run synced (Suc t0) = Synced"
    using lt s0 mn by (rule gate_run_first_sync)
  then have "gate_run synced (Suc t0 + (timeout_ms - t0)) = Synced"
    by (rule gate_run_synced_stays)
  moreover have "Suc t0 + (timeout_ms - t0) = Suc timeout_ms" using lt by simp
  ultimately show ?thesis by simp
qed

lemma gate_never_synced:
  assumes "\<And>t. t < timeout_ms \<Longrightarrow> \<not> synced t"
  shows "gate_run synced (Suc timeout_ms) = TimedOut"
proof -
  have pos: "0 < timeout_ms" by (simp add: timeout_ms_value)
  then obtain k where k: "timeout_ms = Suc k" by (cases timeout_ms) simp_all
  have "gate_run synced (Suc k) = Waiting k"
    using assms k by (intro gate_run_waiting) simp_all
  then show ?thesis using k by simp
qed

lemma gate_step_arrow: "gate_arrow s (gate_step synced s)"
  by (cases s) simp_all

lemma gate_run_timed_out_late: "gate_run synced n = TimedOut \<Longrightarrow> timeout_ms < n"
proof (induction n)
  case 0
  then show ?case by simp
next
  case (Suc n)
  show ?case
  proof (cases "gate_run synced n")
    case Unchecked
    with Suc.prems show ?thesis by (simp split: if_splits)
  next
    case (Waiting t)
    have "t < n" using Waiting
    proof (induction n arbitrary: t)
      case 0
      then show ?case by simp
    next
      case (Suc m)
      then show ?case
        by (cases "gate_run synced m") (auto split: if_splits)
    qed
    with Suc.prems Waiting show ?thesis by (simp split: if_splits)
  next
    case Synced
    with Suc.prems show ?thesis by simp
  next
    case TimedOut
    with Suc.IH show ?thesis by simp
  qed
qed

text \<open>
  Claim C2.  The timeout of the gate is exactly 2000 ms.  A gated request starts
  \<open>Unchecked\<close> and every step of the gate follows an arrow of the state machine
  (\<open>Unchecked\<close> to \<open>Waiting\<close> or \<open>Synced\<close>, \<open>Waiting\<close> to \<open>Waiting\<close>, \<open>Synced\<close> or
  \<open>TimedOut\<close>); the gate never times out before 2000 ms have passed since the check
  began.  If the node reports synced at some millisecond before the deadline, the gate
  ends \<open>Synced\<close> and the request gives what the operation gives; if the node reports
  not synced at every millisecond before the deadline, the gate ends \<open>TimedOut\<close>, the
  operation is not run and the request fails as not synced, status 503.
\<close>

theorem sync_gate_deadline:
  "timeout_ms = 2000 \<and>
   waitForNodeSyncedTimeout = 2000 * Millisecond \<and>
   gate_run synced 0 = Unchecked \<and>
   gate_arrow (gate_run synced n) (gate_run synced (Suc n)) \<and>
   (gate_run synced n = TimedOut \<longrightarrow> 2000 < n) \<and>
   ((\<exists>t<2000. synced t) \<longrightarrow>
      gate_run synced 2001 = Synced \<and> gated synced operation = operation) \<and>
   ((\<forall>t<2000. \<not> synced t) \<longrightarrow>
      gate_run synced 2001 = TimedOut \<and> gated synced operation = Inl ErrNodeNotSync \<and>
      http_status (gated synced operation) = 503)"
proof -
  have r: "Suc timeout_ms = 2001" by (simp add: timeout_ms_value)
  have a: "gate_run synced 2001 = Synced \<and> gated synced operation = operation"
    if "\<exists>t<2000. synced t"
  proof -
    from that obtain t where "t < timeout_ms" "synced t" by (auto simp: timeout_ms_value)
    then have "gate_run synced (Suc timeout_ms) = Synced" by (rule gate_synced_before_deadline)
    then show ?thesis by (simp add: gated_def r)
  qed
  have b: "gate_run synced 2001 = TimedOut \<and> gated synced operation = Inl ErrNodeNotSync \<and>
      http_status (gated synced operation) = 503"
    if "\<forall>t<2000. \<not> synced t"
  proof -
    have "gate_run synced (Suc timeout_ms) = TimedOut"
      using that by (intro gate_never_synced) (simp add: timeout_ms_value)
    then show ?thesis by (simp add: gated_def r)
  qed
  have c: "gate_run synced n = TimedOut \<longrightarrow> 2000 < n"
    using gate_run_timed_out_late[of synced n] by (simp add: timeout_ms_value)
  show ?thesis
    using a b c gate_step_arrow[of "gate_run synced n" synced]
    by (simp add: timeout_ms_value waitForNodeSyncedTimeout_def)
qed

text \<open>
  Witness for C2: a node that becomes synced 1500 ms after the check began lets the
  operation through; one that becomes synced only at 2000 ms is answered 503.
\<close>

theorem sync_gate_deadline_witness:
  "gated (\<lambda>t. 1500 \<le> t) (Inr \<lparr>status = 200, header = [], body = NoBody :: nat body\<rparr>) =
     Inr \<lparr>status = 200, header = [], body = NoBody\<rparr> \<and>
   gated (\<lambda>t. 2000 \<le> t) (Inr \<lparr>status = 200, header = [], body = NoBody :: nat body\<rparr>) =
     Inl ErrNodeNotSync \<and>
   http_status (gated (\<lambda>t. 2000 \<le> t)
     (Inr \<lparr>status = 200, header = [], body = NoBody :: nat body\<rparr>)) = 503"
proof -
  have s: "\<exists>t<2000. (\<lambda>t::nat. 1500 \<le> t) t"
    by (rule exI[of _ 1500]) simp
  have n: "\<forall>t<2000. \<not> (\<lambda>t::nat. 2000 \<le> t) t" by simp
  have a: "gated (\<lambda>t. 1500 \<le> t) (Inr \<lparr>status = 200, header = [], body = NoBody :: nat body\<rparr>) =
     Inr \<lparr>status = 200, header = [], body = NoBody\<rparr>"
    using sync_gate_deadline[of "\<lambda>t. 1500 \<le> t" 0
            "Inr \<lparr>status = 200, header = [], body = NoBody :: nat body\<rparr>"] s
    by blast
  have b: "gated (\<lambda>t. 2000 \<le> t) (Inr \<lparr>status = 200, header = [], body = NoBody :: nat body\<rparr>) =
     Inl ErrNodeNotSync \<and>
     http_status (gated (\<lambda>t. 2000 \<le> t)
       (Inr \<lparr>status = 200, header = [], body = NoBody :: nat body\<rparr>)) = 503"
    using sync_gate_deadline[of "\<lambda>t. 2000 \<le> t" 0
            "Inr \<lparr>status = 200, header = [], body = NoBody :: nat body\<rparr>"] n
    by blast
  from a b show ?thesis by blast
qed

section \<open>Response encodings\<close>

lemma respond_ok_success:
  "respond_ok f c s = (Inr resp, s') \<Longrightarrow>
     status resp = 200 \<and> header resp = response_header c \<and> (\<exists>x. body resp = JSONBody (Data x))"
  by (auto simp: respond_ok_def JSONResponse_def StatusOK_def split: prod.splits sum.splits)

lemma handle_info_success:
  "handle_info c s = (Inr resp, s') \<Longrightarrow>
     status resp = 200 \<and> (\<exists>x. body resp = JSONBody (Info x))"
  by (auto simp: handle_info_def info_def JSONResponse_def StatusOK_def)

lemma handle_send_message_success:
  "handle_send_message B c s = (Inr resp, s') \<Longrightarrow>
     status resp = 201 \<and> (\<exists>x. body resp = JSONBody (MessageCreated x))"
  by (auto simp: handle_send_message_def JSONResponse_def StatusCreated_def
      split: prod.splits sum.splits)

lemma handle_solidifier_success:
  "handle_solidifier B c s = (Inr resp, s') \<Longrightarrow>
     status resp = 200 \<and> (\<exists>x. body resp = JSONBody (Text x))"
  by (auto simp: handle_solidifier_def JSONResponse_def StatusOK_def Let_def)

lemma handle_message_bytes_success:
  "handle_message_bytes B c s = (Inr resp, s') \<Longrightarrow>
     status resp = 200 \<and> (\<exists>bs. body resp = BlobBody MIMEOctetStream bs)"
  by (auto simp: handle_message_bytes_def Blob_def StatusOK_def split: prod.splits sum.splits)

lemma handle_remove_peer_success:
  "handle_remove_peer B c s = (Inr resp, s') \<Longrightarrow> status resp = 204 \<and> body resp = NoBody"
  by (auto simp: handle_remove_peer_def NoContent_def StatusNoContent_def
      split: prod.splits option.splits)

lemma split_path_segment:
  "CHR ''/'' \<notin> set s \<Longrightarrow> split_path (s @ CHR ''/'' # t) = s # split_path t"
  by (induction s) (auto split: list.splits)

lemma find_message_bytes:
  assumes "messageID \<noteq> []" and "CHR ''/'' \<notin> set messageID"
  shows "find_route (v1_route_table B tips) GET (''/api/v1/messages/'' @ messageID @ ''/raw'') =
     Some (\<lparr>verb = GET, path = ''/api/v1/messages/:id/raw'', handler = handle_message_bytes B\<rparr>,
           [(''id'', messageID)])"
  using assms
  by (simp add: v1_route_table_def v1_route_defs match_path_def split_path_segment)

lemma v1_route_closures:
  assumes "r \<in> set (v1_route_table B tips)"
  shows "(verb r = GET \<and> path r = ''/api/v1/messages/:id/raw'' \<and> handler r = handle_message_bytes B) \<or>
     (verb r = DELETE \<and> handler r = handle_remove_peer B) \<or>
     (verb r = POST \<and> handler r = handle_send_message B) \<or>
     (verb r \<noteq> DELETE \<and> path r \<noteq> ''/api/v1/messages/:id/raw'' \<and>
       (handler r = handle_info \<or> handler r = handle_solidifier B \<or>
        (\<exists>name. handler r = respond_ok (call B name))))"
  using assms unfolding v1_route_table_def
  by (cases tips; simp add: v1_route_defs; elim disjE; simp; blast)

lemma debug_route_closures:
  assumes "r \<in> set (debug_route_table B)"
  shows "verb r \<noteq> DELETE \<and> path r \<noteq> ''/api/v1/messages/:id/raw'' \<and>
       (handler r = handle_info \<or> handler r = handle_solidifier B \<or>
        (\<exists>name. handler r = respond_ok (call B name)))"
  using assms unfolding debug_route_table_def
  by (simp add: debug_route_defs; elim disjE; simp; blast)

lemma serve_table:
  assumes "find_route (v1_route_table B tips) (req_method rq) (req_path rq) = Some (r, ps)"
  shows "serve (v1_route_table B tips @ debug_route_table B) rq s =
           handler r \<lparr>params = ps, request_body = req_body rq, response_header = []\<rparr> s"
  using assms by (simp add: serve_def find_route_append)

text \<open>
  Claim C6.  Take any route that the gateway or the debug plugin registers.  Whenever
  its closure succeeds, the answer has one of exactly three encodings, fixed by the
  route: raw bytes for \<open>GET /api/v1/messages/:id/raw\<close> and for no other route, an empty
  body for the \<open>DELETE\<close> route, a structured payload for every other route; the raw-bytes
  answer has status 200 and the octet-stream content type, every other successful \<open>GET\<close>
  has status 200 and a structured payload, the deletion has status 204.  The closures
  succeed exactly when their operation does: the raw-bytes closure answers the bytes
  that \<open>messageBytesByID\<close> returns, the deletion closure answers no content when
  \<open>removePeer\<close> returns no error, and every other \<open>GET\<close> closure is the info closure, the
  solidifier closure or the 200-wrapper of one named operation; an error of the
  operation is passed on.  All three encodings are served: a \<open>GET\<close> of a message's raw
  path, a \<open>DELETE\<close> of a peer and a \<open>GET\<close> of the info path reach these closures.
\<close>

theorem success_response_encodings:
  assumes "v1_configure B restapi_skipped deps st = Inr (st', e1)"
    and "Echo deps = Some []"
    and "r \<in> set (debug_configure B \<lparr>debug_Echo = e1\<rparr>)"
  shows "(handler r c s = (Inr resp, s') \<longrightarrow>
           encoding_of (body resp) =
             (if verb r = GET \<and> path r = ''/api/v1/messages/:id/raw'' then RawBytes
              else if verb r = DELETE then EmptyBody
              else Structured) \<and>
           (verb r = GET \<and> path r = ''/api/v1/messages/:id/raw'' \<longrightarrow>
              status resp = 200 \<and> (\<exists>bs. body resp = BlobBody MIMEOctetStream bs)) \<and>
           (verb r = GET \<and> path r \<noteq> ''/api/v1/messages/:id/raw'' \<longrightarrow>
              status resp = 200 \<and> (\<exists>p. body resp = JSONBody p)) \<and>
           (verb r = DELETE \<longrightarrow> status resp = 204 \<and> body resp = NoBody)) \<and>
         (verb r = GET \<and> path r = ''/api/v1/messages/:id/raw'' \<longrightarrow>
            handler r c s =
              (case messageBytesByID B c s of
                 (Inl err, t) \<Rightarrow> (Inl err, t)
               | (Inr bs, t) \<Rightarrow>
                   (Inr \<lparr>status = 200, header = response_header c,
                         body = BlobBody MIMEOctetStream bs\<rparr>, t))) \<and>
         (verb r = DELETE \<longrightarrow>
            handler r c s =
              (case removePeer B c s of
                 (Some err, t) \<Rightarrow> (Inl err, t)
               | (None, t) \<Rightarrow>
                   (Inr \<lparr>status = 204, header = response_header c, body = NoBody\<rparr>, t))) \<and>
         (verb r = GET \<and> path r \<noteq> ''/api/v1/messages/:id/raw'' \<longrightarrow>
            (\<forall>c s. handler r c s =
               (Inr \<lparr>status = 200, header = response_header c,
                     body = JSONBody (Info \<lparr>Features = features s\<rparr>)\<rparr>, s)) \<or>
            (\<forall>c s. handler r c s =
               (Inr \<lparr>status = 200, header = response_header c,
                     body = JSONBody (Text ''solidifier triggered'')\<rparr>,
                s\<lparr>node := TriggerSolidifier B (node s)\<rparr>)) \<or>
            (\<exists>name. \<forall>c s. handler r c s =
               (case call B name c s of
                  (Inl err, t) \<Rightarrow> (Inl err, t)
                | (Inr x, t) \<Rightarrow>
                    (Inr \<lparr>status = 200, header = response_header c,
                          body = JSONBody (Data x)\<rparr>, t)))) \<and>
         (messageID \<noteq> [] \<and> CHR ''/'' \<notin> set messageID \<longrightarrow>
            serve (debug_configure B \<lparr>debug_Echo = e1\<rparr>)
              \<lparr>req_method = GET, req_path = ''/api/v1/messages/'' @ messageID @ ''/raw'',
               req_body = b\<rparr> s =
              (case messageBytesByID B
                      \<lparr>params = [(''id'', messageID)], request_body = b, response_header = []\<rparr> s of
                 (Inl err, t) \<Rightarrow> (Inl err, t)
               | (Inr bs, t) \<Rightarrow>
                   (Inr \<lparr>status = 200, header = [], body = BlobBody MIMEOctetStream bs\<rparr>, t))) \<and>
         (peerID \<noteq> [] \<and> CHR ''/'' \<notin> set peerID \<longrightarrow>
            serve (debug_configure B \<lparr>debug_Echo = e1\<rparr>)
              \<lparr>req_method = DELETE, req_path = ''/api/v1/peers/'' @ peerID, req_body = b\<rparr> s =
              (case removePeer B
                      \<lparr>params = [(''id'', peerID)], request_body = b, response_header = []\<rparr> s of
                 (Some err, t) \<Rightarrow> (Inl err, t)
               | (None, t) \<Rightarrow> (Inr \<lparr>status = 204, header = [], body = NoBody\<rparr>, t))) \<and>
         serve (debug_configure B \<lparr>debug_Echo = e1\<rparr>)
           \<lparr>req_method = GET, req_path = ''/api/v1/info'', req_body = b\<rparr> s =
           (Inr \<lparr>status = 200, header = [],
                 body = JSONBody (Info \<lparr>Features = features s\<rparr>)\<rparr>, s)"
proof -
  let ?tips = "TipSelector deps \<noteq> None"
  have e1: "e1 = v1_route_table B ?tips"
    using v1_configure_routes[OF assms(1,2)] by simp
  have tab: "debug_configure B \<lparr>debug_Echo = e1\<rparr> = v1_route_table B ?tips @ debug_route_table B"
    by (simp add: debug_configure_routes e1)
  have mem: "r \<in> set (v1_route_table B ?tips) \<or> r \<in> set (debug_route_table B)"
    using assms(3) by (simp add: tab)
  have raw_eq: "handle_message_bytes B c s =
              (case messageBytesByID B c s of
                 (Inl err, t) \<Rightarrow> (Inl err, t)
               | (Inr bs, t) \<Rightarrow>
                   (Inr \<lparr>status = 200, header = response_header c,
                         body = BlobBody MIMEOctetStream bs\<rparr>, t))" for c s
    by (simp add: handle_message_bytes_def Blob_def StatusOK_def split: prod.splits sum.splits)
  have del_eq: "handle_remove_peer B c s =
              (case removePeer B c s of
                 (Some err, t) \<Rightarrow> (Inl err, t)
               | (None, t) \<Rightarrow>
                   (Inr \<lparr>status = 204, header = response_header c, body = NoBody\<rparr>, t))" for c s
    by (simp add: handle_remove_peer_def NoContent_def StatusNoContent_def
        split: prod.splits option.splits)
  have info_eq: "handle_info c s =
               (Inr \<lparr>status = 200, header = response_header c,
                     body = JSONBody (Info \<lparr>Features = features s\<rparr>)\<rparr>, s)"
    for c and s :: "'a state"
    by (simp add: handle_info_def info_def JSONResponse_def StatusOK_def)
  have sol_eq: "handle_solidifier B c s =
               (Inr \<lparr>status = 200, header = response_header c,
                     body = JSONBody (Text ''solidifier triggered'')\<rparr>,
                s\<lparr>node := TriggerSolidifier B (node s)\<rparr>)" for c s
    by (simp add: handle_solidifier_def JSONResponse_def StatusOK_def)
  have ok_eq: "respond_ok f c s =
               (case f c s of
                  (Inl err, t) \<Rightarrow> (Inl err, t)
                | (Inr x, t) \<Rightarrow>
                    (Inr \<lparr>status = 200, header = response_header c,
                          body = JSONBody (Data x)\<rparr>, t))" for f c s
    by (simp add: respond_ok_def JSONResponse_def StatusOK_def split: prod.splits sum.splits)
  from mem consider
      (raw) "verb r = GET" "path r = ''/api/v1/messages/:id/raw''" "handler r = handle_message_bytes B"
    | (del) "verb r = DELETE" "handler r = handle_remove_peer B"
    | (post) "verb r = POST" "handler r = handle_send_message B"
    | (json) "verb r \<noteq> DELETE" "path r \<noteq> ''/api/v1/messages/:id/raw''"
        "handler r = handle_info \<or> handler r = handle_solidifier B \<or>
         (\<exists>name. handler r = respond_ok (call B name))"
    using v1_route_closures[of r B ?tips] debug_route_closures[of r B] by blast
  then have per_route:
    "(handler r c s = (Inr resp, s') \<longrightarrow>
           encoding_of (body resp) =
             (if verb r = GET \<and> path r = ''/api/v1/messages/:id/raw'' then RawBytes
              else if verb r = DELETE then EmptyBody
              else Structured) \<and>
           (verb r = GET \<and> path r = ''/api/v1/messages/:id/raw'' \<longrightarrow>
              status resp = 200 \<and> (\<exists>bs. body resp = BlobBody MIMEOctetStream bs)) \<and>
           (verb r = GET \<and> path r \<noteq> ''/api/v1/messages/:id/raw'' \<longrightarrow>
              status resp = 200 \<and> (\<exists>p. body resp = JSONBody p)) \<and>
           (verb r = DELETE \<longrightarrow> status resp = 204 \<and> body resp = NoBody)) \<and>
         (verb r = GET \<and> path r = ''/api/v1/messages/:id/raw'' \<longrightarrow>
            handler r c s =
              (case messageBytesByID B c s of
                 (Inl err, t) \<Rightarrow> (Inl err, t)
               | (Inr bs, t) \<Rightarrow>
                   (Inr \<lparr>status = 200, header = response_header c,
                         body = BlobBody MIMEOctetStream bs\<rparr>, t))) \<and>
         (verb r = DELETE \<longrightarrow>
            handler r c s =
              (case removePeer B c s of
                 (Some err, t) \<Rightarrow> (Inl err, t)
               | (None, t) \<Rightarrow>
                   (Inr \<lparr>status = 204, header = response_header c, body = NoBody\<rparr>, t))) \<and>
         (verb r = GET \<and> path r \<noteq> ''/api/v1/messages/:id/raw'' \<longrightarrow>
            (\<forall>c s. handler r c s =
               (Inr \<lparr>status = 200, header = response_header c,
                     body = JSONBody (Info \<lparr>Features = features s\<rparr>)\<rparr>, s)) \<or>
            (\<forall>c s. handler r c s =
               (Inr \<lparr>status = 200, header = response_header c,
                     body = JSONBody (Text ''solidifier triggered'')\<rparr>,
                s\<lparr>node := TriggerSolidifier B (node s)\<rparr>)) \<or>
            (\<exists>name. \<forall>c s. handler r c s =
               (case call B name c s of
                  (Inl err, t) \<Rightarrow> (Inl err, t)
                | (Inr x, t) \<Rightarrow>
                    (Inr \<lparr>status = 200, header = response_header c,
                          body = JSONBody (Data x)\<rparr>, t))))"
  proof cases
    case raw
    then show ?thesis
      using handle_message_bytes_success[of B c s resp s'] raw_eq by auto
  next
    case del
    then show ?thesis
      using handle_remove_peer_success[of B c s resp s'] del_eq by auto
  next
    case post
    then show ?thesis
      using handle_send_message_success[of B c s resp s'] by auto
  next
    case json
    consider "handler r = handle_info" | "handler r = handle_solidifier B"
      | name where "handler r = respond_ok (call B name)"
      using json(3) by blast
    then show ?thesis
    proof cases
      case 1
      then show ?thesis
        using json(1,2) handle_info_success[of c s resp s'] info_eq by auto
    next
      case 2
      then show ?thesis
        using json(1,2) handle_solidifier_success[of B c s resp s'] sol_eq by auto
    next
      case 3
      have "\<exists>name. \<forall>c s. handler r c s =
               (case call B name c s of
                  (Inl err, t) \<Rightarrow> (Inl err, t)
                | (Inr x, t) \<Rightarrow>
                    (Inr \<lparr>status = 200, header = response_header c,
                          body = JSONBody (Data x)\<rparr>, t))"
        using 3 ok_eq by auto
      then show ?thesis
        using json(1,2) 3 respond_ok_success[of "call B name" c s resp s'] by auto
    qed
  qed
  have served_raw: "serve (debug_configure B \<lparr>debug_Echo = e1\<rparr>)
              \<lparr>req_method = GET, req_path = ''/api/v1/messages/'' @ messageID @ ''/raw'',
               req_body = b\<rparr> s =
              (case messageBytesByID B
                      \<lparr>params = [(''id'', messageID)], request_body = b, response_header = []\<rparr> s of
                 (Inl err, t) \<Rightarrow> (Inl err, t)
               | (Inr bs, t) \<Rightarrow>
                   (Inr \<lparr>status = 200, header = [], body = BlobBody MIMEOctetStream bs\<rparr>, t))"
    if "messageID \<noteq> []" "CHR ''/'' \<notin> set messageID"
    using serve_table[of B ?tips "\<lparr>req_method = GET,
            req_path = ''/api/v1/messages/'' @ messageID @ ''/raw'', req_body = b\<rparr>" _ _ s]
      find_message_bytes[OF that, of B ?tips]
    by (simp add: tab raw_eq split: prod.splits sum.splits)
  have served_del: "serve (debug_configure B \<lparr>debug_Echo = e1\<rparr>)
              \<lparr>req_method = DELETE, req_path = ''/api/v1/peers/'' @ peerID, req_body = b\<rparr> s =
              (case removePeer B
                      \<lparr>params = [(''id'', peerID)], request_body = b, response_header = []\<rparr> s of
                 (Some err, t) \<Rightarrow> (Inl err, t)
               | (None, t) \<Rightarrow> (Inr \<lparr>status = 204, header = [], body = NoBody\<rparr>, t))"
    if "peerID \<noteq> []" "CHR ''/'' \<notin> set peerID"
    using serve_table[of B ?tips "\<lparr>req_method = DELETE,
            req_path = ''/api/v1/peers/'' @ peerID, req_body = b\<rparr>" _ _ s]
      find_remove_peer[OF that, of B ?tips]
    by (simp add: tab del_eq split: prod.splits option.splits)
  have served_info: "serve (debug_configure B \<lparr>debug_Echo = e1\<rparr>)
           \<lparr>req_method = GET, req_path = ''/api/v1/info'', req_body = b\<rparr> s =
           (Inr \<lparr>status = 200, header = [],
                 body = JSONBody (Info \<lparr>Features = features s\<rparr>)\<rparr>, s)"
    using serve_table[of B ?tips "\<lparr>req_method = GET,
            req_path = ''/api/v1/info'', req_body = b\<rparr>" _ _ s]
      find_info[of B ?tips]
    by (simp add: tab info_eq)
  from per_route served_raw served_del served_info show ?thesis by blast
qed

text \<open>
  Witness for C6: on the sample node, with both plugins on one router, the raw bytes of
  a message are served as an octet-stream blob, the removal of \<open>peerA\<close> as an empty 204
  and the info request as a structured 200.
\<close>

theorem success_response_encodings_witness:
  "serve (debug_configure sample_backend \<lparr>debug_Echo = v1_route_table sample_backend False\<rparr>)
     \<lparr>req_method = GET, req_path = ''/api/v1/messages/4d1a/raw'', req_body = [1, 2]\<rparr> sample_state =
     (Inr \<lparr>status = 200, header = [], body = BlobBody MIMEOctetStream [1, 2]\<rparr>, sample_state) \<and>
   serve (debug_configure sample_backend \<lparr>debug_Echo = v1_route_table sample_backend False\<rparr>)
     \<lparr>req_method = DELETE, req_path = ''/api/v1/peers/peerA'', req_body = []\<rparr> sample_state =
     (Inr \<lparr>status = 204, header = [], body = NoBody\<rparr>, sample_state\<lparr>node := [''peerB'']\<rparr>) \<and>
   serve (debug_configure sample_backend \<lparr>debug_Echo = v1_route_table sample_backend False\<rparr>)
     \<lparr>req_method = GET, req_path = ''/api/v1/info'', req_body = []\<rparr> sample_state =
     (Inr \<lparr>status = 200, header = [], body = JSONBody (Info \<lparr>Features = []\<rparr>)\<rparr>, sample_state)"
proof -
  let ?T = "debug_configure sample_backend \<lparr>debug_Echo = v1_route_table sample_backend False\<rparr>"
  let ?inf = "\<lparr>verb = GET, path = ''/api/v1/info'',
               handler = handle_info :: (string list, string list) handler\<rparr>"
  have e: "Echo sample_deps = Some []" by (simp add: sample_deps_def)
  have m: "?inf \<in> set ?T"
    by (simp add: debug_configure_routes v1_route_table_def v1_route_defs)
  note T = success_response_encodings[OF sample_configure e m]
  have raw: "messageBytesByID sample_backend
               \<lparr>params = [(''id'', ''4d1a'')], request_body = [1, 2], response_header = []\<rparr>
               sample_state = (Inr [1, 2], sample_state)"
    by (simp add: sample_backend_def with_membership_def)
  have del: "removePeer sample_backend
               \<lparr>params = [(''id'', ''peerA'')], request_body = [], response_header = []\<rparr>
               sample_state = (None, sample_state\<lparr>node := [''peerB'']\<rparr>)"
    by (simp add: sample_backend_def with_membership_def removePeer_membership_def
        restapipkg_ParameterPeerID_def sample_state_def)
  have f: "features sample_state = []" by (simp add: sample_state_def)
  have a: "serve ?T \<lparr>req_method = GET, req_path = ''/api/v1/messages/'' @ ''4d1a'' @ ''/raw'',
               req_body = [1, 2]\<rparr> sample_state =
     (Inr \<lparr>status = 200, header = [], body = BlobBody MIMEOctetStream [1, 2]\<rparr>, sample_state)"
    using T[where messageID = "''4d1a''" and b = "[1, 2]" and s = sample_state] raw by simp
  have b: "serve ?T \<lparr>req_method = DELETE, req_path = ''/api/v1/peers/'' @ ''peerA'',
               req_body = []\<rparr> sample_state =
     (Inr \<lparr>status = 204, header = [], body = NoBody\<rparr>, sample_state\<lparr>node := [''peerB'']\<rparr>)"
    using T[where peerID = "''peerA''" and b = "[]" and s = sample_state] del by simp
  have c: "serve ?T \<lparr>req_method = GET, req_path = ''/api/v1/info'', req_body = []\<rparr> sample_state =
     (Inr \<lparr>status = 200, header = [], body = JSONBody (Info \<lparr>Features = []\<rparr>)\<rparr>, sample_state)"
    using T[where b = "[]" and s = sample_state] f by simp
  from a b c show ?thesis by simp
qed

section \<open>Startup with missing handles\<close>

lemma optional_fields:
  "filter snd v1_dependencies_fields = [(''TipSelector'', True), (''Echo'', True)]"
  by (simp add: v1_dependencies_fields_def)

lemma optional_field_names:
  "f \<in> set v1_dependencies_fields \<Longrightarrow> snd f \<Longrightarrow> fst f = ''TipSelector'' \<or> fst f = ''Echo''"
proof -
  assume "f \<in> set v1_dependencies_fields" and "snd f"
  then have "f \<in> set (filter snd v1_dependencies_fields)" by simp
  then show ?thesis unfolding optional_fields by auto
qed

lemma inject_missing:
  assumes "f \<in> set v1_dependencies_fields" and "\<not> snd f" and "map_of ct (fst f) = None"
  shows "\<exists>n. inject ct = Inl (MissingDependency n)"
proof -
  have "find (\<lambda>f. \<not> snd f \<and> map_of ct (fst f) = None) v1_dependencies_fields \<noteq> None"
    unfolding find_None_iff using assms by blast
  then obtain g where "find (\<lambda>f. \<not> snd f \<and> map_of ct (fst f) = None) v1_dependencies_fields = Some g"
    by blast
  then show ?thesis
    by (simp add: inject_def)
qed

lemma inject_ok:
  assumes "inject ct = Inr deps"
  shows "(\<forall>f\<in>set v1_dependencies_fields. \<not> snd f \<longrightarrow> map_of ct (fst f) \<noteq> None) \<and>
         (Echo deps \<noteq> None \<longrightarrow> map_of ct ''Echo'' \<noteq> None)"
proof -
  have "find (\<lambda>f. \<not> snd f \<and> map_of ct (fst f) = None) v1_dependencies_fields = None"
    using assms by (auto simp: inject_def split: option.splits)
  then have "\<not> (\<exists>f. f \<in> set v1_dependencies_fields \<and> \<not> snd f \<and> map_of ct (fst f) = None)"
    by (simp add: find_None_iff)
  then have "\<forall>f\<in>set v1_dependencies_fields. \<not> snd f \<longrightarrow> map_of ct (fst f) \<noteq> None"
    by metis
  moreover have "Echo deps \<noteq> None \<longrightarrow> map_of ct ''Echo'' \<noteq> None"
    using assms by (auto simp: inject_def split: option.splits handle.splits)
  ultimately show ?thesis by blast
qed

lemma inject_sample_without_echo:
  "inject (tl sample_container) =
     Inr \<lparr>NodeConfig = sample_config False, TipSelector = None, Echo = None\<rparr>"
  by (simp add: inject_def sample_container_def v1_dependencies_fields_def)

lemma inject_sample:
  "inject sample_container = Inr sample_deps"
  by (simp add: inject_def sample_container_def v1_dependencies_fields_def sample_deps_def)

lemma inject_router_host:
  assumes "inject ct = Inr deps" and "map_of ct ''Echo'' = Some (EchoHandle e)"
  shows "Echo deps = Some e"
  using assms by (auto simp: inject_def split: option.splits handle.splits)

text \<open>
  Claim C8.  The router host is the handle that the RestAPI plugin brings: it is absent
  only when that plugin is skipped, which is the one thing \<open>configure\<close> checks before it
  uses the handle.  Under that condition, the absence of any entry of the bundle other
  than the optional tip selector, the router host included, ends startup in a fatal
  error that is raised on purpose: the missing-dependency error of the injection for an
  entry that is not tagged optional, the \<open>LogPanic\<close> of \<open>configure\<close> for the router host.
  Startup never ends in a nil dereference, and whenever it returns a gateway the RestAPI
  plugin is not skipped and every one of these entries is present, so no route is
  registered with a mandatory handle missing.
\<close>

theorem startup_fails_without_handles:
  assumes "restapi_skipped \<or> (\<exists>e. map_of ct ''Echo'' = Some (EchoHandle e))"
  shows
   "(\<forall>f\<in>set v1_dependencies_fields. fst f \<noteq> ''TipSelector'' \<and> map_of ct (fst f) = None \<longrightarrow>
      (\<exists>n. v1_startup B restapi_skipped ct st = Inl (MissingDependency n)) \<or>
      v1_startup B restapi_skipped ct st =
        Inl (LogPanic ''RestAPI plugin needs to be enabled to use the RestAPIV1 plugin'')) \<and>
    (\<forall>f\<in>set v1_dependencies_fields. \<not> snd f \<and> map_of ct (fst f) = None \<longrightarrow>
      (\<exists>n. v1_startup B restapi_skipped ct st = Inl (MissingDependency n))) \<and>
    filter snd v1_dependencies_fields = [(''TipSelector'', True), (''Echo'', True)] \<and>
    (inject ct = Inr deps \<and> restapi_skipped \<longrightarrow>
      v1_startup B restapi_skipped ct st =
        Inl (LogPanic ''RestAPI plugin needs to be enabled to use the RestAPIV1 plugin'')) \<and>
    v1_startup B restapi_skipped ct st \<noteq> Inl NilPointerDereference \<and>
    (v1_startup B restapi_skipped ct st = Inr (st', e') \<longrightarrow>
      \<not> restapi_skipped \<and>
      (\<forall>f\<in>set v1_dependencies_fields. fst f \<noteq> ''TipSelector'' \<longrightarrow> map_of ct (fst f) \<noteq> None))"
proof -
  let ?panic = "Inl (LogPanic ''RestAPI plugin needs to be enabled to use the RestAPIV1 plugin'')
                  :: startup_error + ('a state \<times> ('a, 'b) echo)"
  have a: "\<exists>n. v1_startup B restapi_skipped ct st = Inl (MissingDependency n)"
    if "f \<in> set v1_dependencies_fields" "\<not> snd f" "map_of ct (fst f) = None" for f
    using inject_missing[OF that] by (auto simp: v1_startup_def)
  have b: "v1_startup B restapi_skipped ct st = ?panic"
    if "inject ct = Inr deps" "restapi_skipped" for deps
    using that by (simp add: v1_startup_def v1_configure_def)
  have inj: "(\<exists>n. inject ct = Inl (MissingDependency n)) \<or> (\<exists>deps. inject ct = Inr deps)"
    by (auto simp: inject_def split: option.splits handle.splits)
  have c: "v1_startup B restapi_skipped ct st \<noteq> Inl NilPointerDereference"
  proof (cases "inject ct")
    case (Inl err)
    with inj show ?thesis by (auto simp: v1_startup_def)
  next
    case (Inr deps)
    show ?thesis
    proof (cases restapi_skipped)
      case True
      with Inr b show ?thesis by simp
    next
      case False
      with assms obtain e where "map_of ct ''Echo'' = Some (EchoHandle e)" by blast
      then have "Echo deps = Some e" using Inr inject_router_host by blast
      with Inr False show ?thesis by (simp add: v1_startup_def v1_configure_def Let_def)
    qed
  qed
  have d: "(\<exists>n. v1_startup B restapi_skipped ct st = Inl (MissingDependency n)) \<or>
      v1_startup B restapi_skipped ct st = ?panic"
    if f: "f \<in> set v1_dependencies_fields" "fst f \<noteq> ''TipSelector''" "map_of ct (fst f) = None"
    for f
  proof (cases "snd f")
    case False
    then show ?thesis using a f by blast
  next
    case True
    then have "fst f = ''Echo''" using optional_field_names[OF f(1)] f(2) by blast
    then have "map_of ct ''Echo'' = None" using f(3) by simp
    with assms have sk: restapi_skipped by auto
    from inj show ?thesis
    proof
      assume "\<exists>n. inject ct = Inl (MissingDependency n)"
      then show ?thesis by (auto simp: v1_startup_def)
    next
      assume "\<exists>deps. inject ct = Inr deps"
      then show ?thesis using b sk by blast
    qed
  qed
  have g: "\<not> restapi_skipped \<and>
      (\<forall>f\<in>set v1_dependencies_fields. fst f \<noteq> ''TipSelector'' \<longrightarrow> map_of ct (fst f) \<noteq> None)"
    if ok: "v1_startup B restapi_skipped ct st = Inr (st', e')"
  proof -
    from ok obtain deps' where i: "inject ct = Inr deps'"
      and cf: "v1_configure B restapi_skipped deps' st = Inr (st', e')"
      by (auto simp: v1_startup_def split: sum.splits)
    from cf have ns: "\<not> restapi_skipped" and ec: "Echo deps' \<noteq> None"
      using v1_configure_ok[of B restapi_skipped deps' st] by blast+
    have "map_of ct (fst f) \<noteq> None"
      if "f \<in> set v1_dependencies_fields" "fst f \<noteq> ''TipSelector''" for f
    proof (cases "snd f")
      case True
      then have "fst f = ''Echo''" using optional_field_names[OF that(1)] that(2) by blast
      then show ?thesis using inject_ok[OF i] ec by simp
    next
      case False
      then show ?thesis using inject_ok[OF i] that(1) by blast
    qed
    with ns show ?thesis by blast
  qed
  show ?thesis using a b c d g optional_fields by blast
qed

text \<open>
  Witness for C8: without the router host and with the RestAPI plugin skipped, startup
  ends in \<open>LogPanic\<close>; with \<open>Storage\<close> taken out of the sample container it ends in a
  missing dependency; the full sample container starts up.
\<close>

theorem startup_fails_without_handles_witness:
  "map_of (tl sample_container) ''Echo'' = None \<and>
   v1_startup sample_backend True (tl sample_container) sample_state =
     Inl (LogPanic ''RestAPI plugin needs to be enabled to use the RestAPIV1 plugin'') \<and>
   map_of (filter (\<lambda>h. fst h \<noteq> ''Storage'') sample_container) ''Storage'' = None \<and>
   (\<exists>n. v1_startup sample_backend False
           (filter (\<lambda>h. fst h \<noteq> ''Storage'') sample_container) sample_state =
         Inl (MissingDependency n)) \<and>
   v1_startup sample_backend False sample_container sample_state =
     Inr (sample_state\<lparr>powWorkerCount := 1\<rparr>, v1_route_table sample_backend False)"
proof -
  have ok: "v1_startup sample_backend False sample_container sample_state =
     Inr (sample_state\<lparr>powWorkerCount := 1\<rparr>, v1_route_table sample_backend False)"
    by (simp add: v1_startup_def inject_sample sample_configure)
  have ne: "map_of (tl sample_container) ''Echo'' = None"
    by (simp add: sample_container_def v1_dependencies_fields_def)
  have lp: "v1_startup sample_backend True (tl sample_container) sample_state =
     Inl (LogPanic ''RestAPI plugin needs to be enabled to use the RestAPIV1 plugin'')"
    using startup_fails_without_handles[of True "tl sample_container" sample_backend
            sample_state "\<lparr>NodeConfig = sample_config False, TipSelector = None, Echo = None\<rparr>"]
          inject_sample_without_echo
    by blast
  have sf: "(''Storage'', False) \<in> set v1_dependencies_fields"
    by (simp add: v1_dependencies_fields_def)
  have ns: "map_of (filter (\<lambda>h. fst h \<noteq> ''Storage'') sample_container) ''Storage'' = None"
    by (simp add: sample_container_def v1_dependencies_fields_def)
  have ec: "\<exists>e. map_of (filter (\<lambda>h. fst h \<noteq> ''Storage'') sample_container) ''Echo''
              = Some (EchoHandle e)"
    by (simp add: sample_container_def)
  then have tie: "False \<or> (\<exists>e. map_of (filter (\<lambda>h. fst h \<noteq> ''Storage'') sample_container) ''Echo''
              = Some (EchoHandle e))" by simp
  have ms: "\<exists>n. v1_startup sample_backend False
           (filter (\<lambda>h. fst h \<noteq> ''Storage'') sample_container) sample_state =
         Inl (MissingDependency n)"
    using startup_fails_without_handles[OF tie, of sample_backend sample_state] sf ns
    by fastforce
  from ok ne lp ms ns show ?thesis by blast
qed

section \<open>Message submission\<close>








end
